theory Spec2Isabelle
  imports Complex_Main "HOL-Library.Multiset"
begin

section \<open>The borough index\<close>

text \<open>
  \<^verbatim>\<open>location_mapping\<close> of \<^verbatim>\<open>frontend_modified.py\<close>: a Python dict literal, kept as the list
  of its items in insertion order (the keys of the literal are pairwise distinct).
\<close>

definition location_mapping :: "(int \<times> string) list" where
  "location_mapping =
     [(1, ''EWR''), (2, ''Queens''), (3, ''Bronx''), (4, ''Manhattan''), (5, ''Staten Island''),
      (6, ''Staten Island''), (7, ''Queens''), (8, ''Queens''), (9, ''Queens''), (10, ''Queens''),
      (11, ''Brooklyn''), (12, ''Manhattan''), (13, ''Manhattan''), (14, ''Brooklyn''),
      (15, ''Queens''), (132, ''Queens'')]"

text \<open>
  \<^verbatim>\<open>location_df = pd.DataFrame(location_mapping.items(), columns=["LocationID", "Borough"])\<close>:
  one row per item of the dict, in the same order.
\<close>

type_synonym location_table = "(int \<times> string) list"

definition location_df :: location_table where
  "location_df = location_mapping"

text \<open>\<^verbatim>\<open>Series.unique()\<close>: the distinct values in order of first appearance.\<close>

definition unique :: "'a list \<Rightarrow> 'a list" where
  "unique xs = rev (remdups (rev xs))"

text \<open>The options of the select box: \<^verbatim>\<open>location_df["Borough"].unique()\<close>.\<close>

definition borough_options :: "location_table \<Rightarrow> string list" where
  "borough_options df = unique (map snd df)"

text \<open>
  \<^verbatim>\<open>location_ids = location_df[location_df["Borough"] == selected_borough]["LocationID"].tolist()\<close>
\<close>

definition location_ids :: "location_table \<Rightarrow> string \<Rightarrow> int list" where
  "location_ids df selected_borough = map fst (filter (\<lambda>row. snd row = selected_borough) df)"

section \<open>Prediction tables\<close>

text \<open>
  A row of the prediction table, with the two columns the dashboard reads. The demand is a
  number (the data model excludes missing values in this column); Python floats are idealised
  as reals.
\<close>

record prediction =
  pickup_location_id :: int
  predicted_demand :: real

text \<open>
  \<^verbatim>\<open>filtered_predictions = predictions[predictions["pickup_location_id"].isin(location_ids)]\<close>
\<close>

definition filtered_predictions :: "location_table \<Rightarrow> string \<Rightarrow> prediction list \<Rightarrow> prediction list" where
  "filtered_predictions df selected_borough predictions =
     filter (\<lambda>r. pickup_location_id r \<in> set (location_ids df selected_borough)) predictions"

text \<open>
  \<^verbatim>\<open>sort_values("predicted_demand", ascending=False)\<close> is the sort of pandas with its default
  \<^verbatim>\<open>kind="quicksort"\<close>, which is not stable: the order it gives to rows of equal demand is left
  to the implementation. The sort is therefore a parameter of the model, a function from the
  table to the sorted table, and what pandas promises of it is stated as a predicate: the
  result has the rows of the table, each as often as the table has it, in an order of
  non-increasing demand.
\<close>

type_synonym sorter = "prediction list \<Rightarrow> prediction list"

definition descending_by_demand :: "prediction list \<Rightarrow> prediction list \<Rightarrow> bool" where
  "descending_by_demand rows sorted_rows =
     (mset sorted_rows = mset rows
      \<and> sorted_wrt (\<lambda>r1 r2. predicted_demand r2 \<le> predicted_demand r1) sorted_rows)"

text \<open>\<^verbatim>\<open>DataFrame.head(10)\<close>\<close>

definition head10 :: "'a list \<Rightarrow> 'a list" where
  "head10 rows = take 10 rows"

text \<open>
  The table shown by
  \<^verbatim>\<open>st.dataframe(filtered_predictions.sort_values("predicted_demand", ascending=False).head(10))\<close>.
\<close>

definition displayed_table :: "sorter \<Rightarrow> prediction list \<Rightarrow> prediction list" where
  "displayed_table sort_values fp = head10 (sort_values fp)"

text \<open>
  \<^verbatim>\<open>top10 = filtered_predictions.sort_values("predicted_demand", ascending=False).head(10)["pickup_location_id"].to_list()\<close>
\<close>

definition top10 :: "sorter \<Rightarrow> prediction list \<Rightarrow> int list" where
  "top10 sort_values fp = map pickup_location_id (head10 (sort_values fp))"

section \<open>Statistics\<close>

text \<open>
  \<^verbatim>\<open>Series.mean()\<close>, \<^verbatim>\<open>Series.max()\<close> and \<^verbatim>\<open>Series.min()\<close> return NaN on an empty column and
  raise nothing; NaN is \<^const>\<open>None\<close> here.
\<close>

definition series_mean :: "real list \<Rightarrow> real option" where
  "series_mean xs = (if xs = [] then None else Some (sum_list xs / real (length xs)))"

definition series_max :: "real list \<Rightarrow> real option" where
  "series_max xs = (case xs of [] \<Rightarrow> None | x # rest \<Rightarrow> Some (fold max rest x))"

definition series_min :: "real list \<Rightarrow> real option" where
  "series_min xs = (case xs of [] \<Rightarrow> None | x # rest \<Rightarrow> Some (fold min rest x))"

text \<open>Decimal digits of a natural number, as \<^verbatim>\<open>str\<close> prints them.\<close>

fun decimal :: "nat \<Rightarrow> string" where
  "decimal n = (if n < 10 then [''0123456789'' ! n] else decimal (n div 10) @ [''0123456789'' ! (n mod 10)])"

declare decimal.simps [simp del]

text \<open>Rounding to the nearest integer, ties to the even one, as the format \<^verbatim>\<open>.0f\<close> does.\<close>

definition round_half_even :: "real \<Rightarrow> int" where
  "round_half_even x =
     (let f = \<lfloor>x\<rfloor>; d = x - of_int f
      in if d < 1 / 2 then f else if 1 / 2 < d then f + 1 else if even f then f else f + 1)"

text \<open>
  The f-string \<^verbatim>\<open>f"{v:.0f}"\<close>: \<^verbatim>\<open>nan\<close> for NaN, otherwise the sign of the value (kept even when
  the digits round to zero) followed by the rounded magnitude.
\<close>

definition format_0f :: "real option \<Rightarrow> string" where
  "format_0f v =
     (case v of
        None \<Rightarrow> ''nan''
      | Some x \<Rightarrow> (if x < 0 then ''-'' else '''') @ decimal (nat (round_half_even \<bar>x\<bar>)))"

text \<open>
  The three values handed to \<^verbatim>\<open>st.metric\<close>: Average Rides, Maximum Rides, Minimum Rides.
\<close>

definition metrics :: "prediction list \<Rightarrow> string \<times> string \<times> string" where
  "metrics fp =
     (let col = map predicted_demand fp
      in (format_0f (series_mean col), format_0f (series_max col), format_0f (series_min col)))"

section \<open>Errors\<close>

text \<open>
  The exceptions that can end a run. \<^verbatim>\<open>load_shape_data_file\<close> raises
  \<^verbatim>\<open>Exception("Failed to download file: ...")\<close> and \<^verbatim>\<open>Exception("Failed to extract zip file: ...")\<close>;
  the other constructors are exceptions of the libraries and of the two read APIs, which the
  script does not catch. \<^verbatim>\<open>UnzipError\<close> carries the name of an exception other than
  \<^verbatim>\<open>BadZipFile\<close> that extraction raised, such as \<^verbatim>\<open>zlib.error\<close>.
\<close>

datatype request_exception = Timeout | ConnectionError | HTTPError nat

datatype error =
    Failed_to_download request_exception
  | Failed_to_extract
  | FileNotFoundError
  | ReadFileError
  | UnzipError string
  | UpstreamError string
  | ValueError
  | ZeroDivisionError
  | IndexError

section \<open>Joining predictions onto the zones\<close>

text \<open>
  A row of the zone shapefile. Only the columns the dashboard names are kept; the geometry and
  the remaining attribute columns are carried through the join unchanged and are left out.
\<close>

record zone_row =
  LocationID :: int
  zone :: string

text \<open>
  A row of the merged frame: the zone row, then the two columns taken from the prediction
  table, which are NaN (\<^const>\<open>None\<close>) where no prediction row matched.
\<close>

record merged_row =
  left_row :: zone_row
  right_pickup_location_id :: "int option"
  right_predicted_demand :: "real option"

text \<open>
  \<^verbatim>\<open>nyc_zones.merge(prediction_data[["pickup_location_id", "predicted_demand"]],
  left_on="LocationID", right_on="pickup_location_id", how="left")\<close>: zone rows in their
  order; each is paired with every prediction row of the same identifier, in table order, or
  kept once with missing values when there is none.
\<close>

definition merge_one :: "prediction list \<Rightarrow> zone_row \<Rightarrow> merged_row list" where
  "merge_one prediction_data z =
     (case filter (\<lambda>p. pickup_location_id p = LocationID z) prediction_data of
        [] \<Rightarrow> [\<lparr>left_row = z, right_pickup_location_id = None, right_predicted_demand = None\<rparr>]
      | m # ms \<Rightarrow>
          map (\<lambda>p. \<lparr>left_row = z, right_pickup_location_id = Some (pickup_location_id p),
                     right_predicted_demand = Some (predicted_demand p)\<rparr>) (m # ms))"

definition merge_left :: "zone_row list \<Rightarrow> prediction list \<Rightarrow> merged_row list" where
  "merge_left nyc_zones prediction_data = concat (map (merge_one prediction_data) nyc_zones)"

text \<open>A row after \<^verbatim>\<open>nyc_zones["predicted_demand"].fillna(0)\<close>: the demand is a number.\<close>

record joined_row =
  zone_of :: zone_row
  joined_pickup_location_id :: "int option"
  demand :: real

definition fillna0 :: "merged_row list \<Rightarrow> joined_row list" where
  "fillna0 rows =
     map (\<lambda>r. \<lparr>zone_of = left_row r, joined_pickup_location_id = right_pickup_location_id r,
                demand = (case right_predicted_demand r of None \<Rightarrow> 0 | Some d \<Rightarrow> d)\<rparr>) rows"

definition join_zones :: "zone_row list \<Rightarrow> prediction list \<Rightarrow> joined_row list" where
  "join_zones nyc_zones prediction_data = fillna0 (merge_left nyc_zones prediction_data)"

section \<open>The colour scale\<close>

text \<open>
  The colour scale of the map is an object of the class \<^verbatim>\<open>LinearColormap\<close> of the branca
  package. The script constructs it and calls it; the class itself is not part of the
  repository, and the two definitions that stand for it are marked below.
\<close>

text \<open>Python list indexing with a possibly negative index.\<close>

definition py_index :: "'a list \<Rightarrow> int \<Rightarrow> error + 'a" where
  "py_index xs i =
     (if 0 \<le> i \<and> i < int (length xs) then Inr (xs ! nat i)
      else if i < 0 \<and> - int (length xs) \<le> i then Inr (xs ! nat (int (length xs) + i))
      else Inl IndexError)"

text \<open>
  The colours of \<^verbatim>\<open>create_taxi_map\<close>, as red, green and blue bytes:
  \<^verbatim>\<open>["#FFEDA0", "#FED976", "#FEB24C", "#FD8D3C", "#FC4E2A", "#E31A1C", "#BD0026"]\<close>.
\<close>

definition palette :: "(nat \<times> nat \<times> nat) list" where
  "palette = [(255, 237, 160), (254, 217, 118), (254, 178, 76), (253, 141, 60),
              (252, 78, 42), (227, 26, 28), (189, 0, 38)]"

text \<open>A parsed colour: red, green, blue and alpha between 0 and 1; a hex colour is opaque.\<close>

definition parse_color :: "nat \<times> nat \<times> nat \<Rightarrow> real list" where
  "parse_color c = (case c of (r, g, b) \<Rightarrow> [real r / 255, real g / 255, real b / 255, 1])"

record linear_colormap =
  cm_vmin :: "real option"
  cm_vmax :: "real option"
  index :: "real option list"
  colors :: "real list list"

text \<open>
  Modelled from the spec: the constructor of \<^verbatim>\<open>LinearColormap\<close>, which is not under \<^verbatim>\<open>src/\<close>. The
  scale is a linear gradient over the given colours with domain \<open>[vmin, vmax]\<close>: fewer than two
  colours raise \<^verbatim>\<open>ValueError\<close>, otherwise the stops \<^verbatim>\<open>vmin + (vmax - vmin) * i / (n - 1)\<close> are
  spread evenly over the domain. A bound that is NaN (\<^const>\<open>None\<close>) makes every stop NaN.
  The object keeps the two bounds (its attributes \<^verbatim>\<open>vmin\<close> and \<^verbatim>\<open>vmax\<close>).
\<close>

definition LinearColormap ::
  "(nat \<times> nat \<times> nat) list \<Rightarrow> real option \<Rightarrow> real option \<Rightarrow> error + linear_colormap" where
  "LinearColormap cols vmin vmax =
     (let n = length cols
      in if n < 2 then Inl ValueError
         else Inr \<lparr>cm_vmin = vmin, cm_vmax = vmax,
                   index =
                     map (\<lambda>i. case (vmin, vmax) of
                                 (Some a, Some b) \<Rightarrow> Some (a + (b - a) * real i / real (n - 1))
                               | _ \<Rightarrow> None) [0..<n],
                   colors = map parse_color cols\<rparr>)"

definition nan_le :: "real \<Rightarrow> real option \<Rightarrow> bool" where
  "nan_le x u = (case u of None \<Rightarrow> False | Some v \<Rightarrow> x \<le> v)"

definition nan_ge :: "real \<Rightarrow> real option \<Rightarrow> bool" where
  "nan_ge x u = (case u of None \<Rightarrow> False | Some v \<Rightarrow> v \<le> x)"

definition nan_lt :: "real option \<Rightarrow> real \<Rightarrow> bool" where
  "nan_lt u x = (case u of None \<Rightarrow> False | Some v \<Rightarrow> v < x)"

text \<open>
  The position of \<open>x\<close> between two stops, \<^verbatim>\<open>(x - lo) / (hi - lo)\<close>: NaN when a stop is NaN,
  \<^verbatim>\<open>ZeroDivisionError\<close> when the stops coincide.
\<close>

definition position :: "real \<Rightarrow> real option \<Rightarrow> real option \<Rightarrow> error + real option" where
  "position x lo hi =
     (case (lo, hi) of
        (Some a, Some b) \<Rightarrow> if b - a = 0 then Inl ZeroDivisionError else Inr (Some ((x - a) / (b - a)))
      | _ \<Rightarrow> Inr None)"

definition mix :: "real option \<Rightarrow> real list \<Rightarrow> real list \<Rightarrow> real option list" where
  "mix p c0 c1 =
     (case p of
        None \<Rightarrow> map (\<lambda>_. None) c0
      | Some q \<Rightarrow> map (\<lambda>(u, v). Some ((1 - q) * u + q * v)) (zip c0 c1))"

text \<open>\<^verbatim>\<open>int(u * 255.9999)\<close> for each channel; \<^verbatim>\<open>int\<close> truncates towards zero.\<close>

definition truncate :: "real \<Rightarrow> int" where
  "truncate u = (if 0 \<le> u then \<lfloor>u\<rfloor> else \<lceil>u\<rceil>)"

definition rgba_bytes :: "real option list \<Rightarrow> error + int list" where
  "rgba_bytes channels =
     (if None \<in> set channels then Inl ValueError
      else Inr (map (\<lambda>u. truncate (the u * 255.9999)) channels))"

text \<open>
  Modelled from the spec: the call of a \<^verbatim>\<open>LinearColormap\<close> at a value, which is not under
  \<^verbatim>\<open>src/\<close>. A value at or below the first stop takes the first colour and a value at or above
  the last stop takes the last colour; only a value strictly between two stops is
  interpolated, which divides by the distance of the stops. Comparisons with a NaN stop are
  false, and converting a NaN channel to a byte raises \<^verbatim>\<open>ValueError\<close>. The result is the four
  bytes that the library prints as the hex string \<^verbatim>\<open>#rrggbbaa\<close>.
\<close>

definition colormap_call :: "linear_colormap \<Rightarrow> real \<Rightarrow> error + int list" where
  "colormap_call cm x =
     (case py_index (index cm) 0 of Inl e \<Rightarrow> Inl e | Inr first_stop \<Rightarrow>
      if nan_le x first_stop then
        (case py_index (colors cm) 0 of Inl e \<Rightarrow> Inl e | Inr c \<Rightarrow> rgba_bytes (map Some c))
      else
      (case py_index (index cm) (- 1) of Inl e \<Rightarrow> Inl e | Inr last_stop \<Rightarrow>
      if nan_ge x last_stop then
        (case py_index (colors cm) (- 1) of Inl e \<Rightarrow> Inl e | Inr c \<Rightarrow> rgba_bytes (map Some c))
      else
      (let i = int (length (filter (\<lambda>u. nan_lt u x) (index cm)))
       in case py_index (index cm) (i - 1) of Inl e \<Rightarrow> Inl e | Inr lo \<Rightarrow>
          (case py_index (index cm) i of Inl e \<Rightarrow> Inl e | Inr hi \<Rightarrow>
          (case position x lo hi of Inl e \<Rightarrow> Inl e | Inr p \<Rightarrow>
          (case py_index (colors cm) (i - 1) of Inl e \<Rightarrow> Inl e | Inr c0 \<Rightarrow>
          (case py_index (colors cm) i of Inl e \<Rightarrow> Inl e | Inr c1 \<Rightarrow>
             rgba_bytes (mix p c0 c1))))))))"

text \<open>
  Modelled from the spec: the call of a \<^verbatim>\<open>LinearColormap\<close> at NaN, which is not under \<^verbatim>\<open>src/\<close>.
  Both comparisons with the end stops are false and no stop is below NaN, so the library
  interpolates between the last and the first stop (indices \<open>-1\<close> and \<open>0\<close>): the division
  raises \<^verbatim>\<open>ZeroDivisionError\<close> when the two stops are equal numbers; otherwise the position
  and the channels are NaN, and converting them to bytes raises \<^verbatim>\<open>ValueError\<close>.
\<close>

definition position_of_nan :: "real option \<Rightarrow> real option \<Rightarrow> error + real option" where
  "position_of_nan lo hi =
     (case (lo, hi) of
        (Some a, Some b) \<Rightarrow> if b - a = 0 then Inl ZeroDivisionError else Inr None
      | _ \<Rightarrow> Inr None)"

definition colormap_call_nan :: "linear_colormap \<Rightarrow> error + int list" where
  "colormap_call_nan cm =
     (case py_index (index cm) 0 of Inl e \<Rightarrow> Inl e | Inr hi \<Rightarrow>
      (case py_index (index cm) (- 1) of Inl e \<Rightarrow> Inl e | Inr lo \<Rightarrow>
      (case position_of_nan lo hi of Inl e \<Rightarrow> Inl e | Inr p \<Rightarrow>
      (case py_index (colors cm) (- 1) of Inl e \<Rightarrow> Inl e | Inr c0 \<Rightarrow>
      (case py_index (colors cm) 0 of Inl e \<Rightarrow> Inl e | Inr c1 \<Rightarrow>
         rgba_bytes (mix p c0 c1))))))"

definition scale_at :: "linear_colormap \<Rightarrow> real option \<Rightarrow> error + int list" where
  "scale_at cm x = (case x of None \<Rightarrow> colormap_call_nan cm | Some v \<Rightarrow> colormap_call cm v)"

text \<open>
  Modelled from the spec: the rendering of the scale as the legend of the map, which is not
  under \<^verbatim>\<open>src/\<close>. The library calls the scale at the 500 values
  \<^verbatim>\<open>vmin + (vmax - vmin) * k / 499.0\<close>, which are NaN when a bound is NaN; the first exception
  ends the rendering.
\<close>

definition color_domain :: "linear_colormap \<Rightarrow> real option list" where
  "color_domain cm =
     map (\<lambda>k. case (cm_vmin cm, cm_vmax cm) of
                 (Some a, Some b) \<Rightarrow> Some (a + (b - a) * real k / 499)
               | _ \<Rightarrow> None) [0..<500]"

fun scale_all :: "linear_colormap \<Rightarrow> real option list \<Rightarrow> error + int list list" where
  "scale_all cm [] = Inr []"
| "scale_all cm (x # xs) =
     (case scale_at cm x of
        Inl e \<Rightarrow> Inl e
      | Inr c \<Rightarrow> (case scale_all cm xs of Inl e \<Rightarrow> Inl e | Inr rest \<Rightarrow> Inr (c # rest)))"

definition render_colormap :: "linear_colormap \<Rightarrow> error + int list list" where
  "render_colormap cm = scale_all cm (color_domain cm)"

section \<open>Building the map\<close>

text \<open>The dictionary returned by \<^verbatim>\<open>style_function\<close>.\<close>

record style =
  fillColor :: "int list"
  color :: string
  weight :: nat
  fillOpacity :: real

text \<open>
  \<^verbatim>\<open>style_function\<close> of \<^verbatim>\<open>create_taxi_map\<close>. Every feature of \<^verbatim>\<open>nyc_zones.to_json()\<close> has the
  property \<^verbatim>\<open>predicted_demand\<close>, so the default of \<^verbatim>\<open>get\<close> is never taken.
\<close>

definition style_function :: "linear_colormap \<Rightarrow> joined_row \<Rightarrow> error + style" where
  "style_function colormap feature =
     (case colormap_call colormap (demand feature) of
        Inl e \<Rightarrow> Inl e
      | Inr c \<Rightarrow> Inr \<lparr>fillColor = c, color = ''black'', weight = 1, fillOpacity = 0.7\<rparr>)"

text \<open>Applying the style function to the features in order; the first exception ends it.\<close>

fun style_all :: "linear_colormap \<Rightarrow> joined_row list \<Rightarrow> error + (joined_row \<times> style) list" where
  "style_all colormap [] = Inr []"
| "style_all colormap (f # fs) =
     (case style_function colormap f of
        Inl e \<Rightarrow> Inl e
      | Inr s \<Rightarrow> (case style_all colormap fs of Inl e \<Rightarrow> Inl e | Inr rest \<Rightarrow> Inr ((f, s) # rest)))"

text \<open>The map object: the colour scale added to it and the styled zones of its GeoJson layer.\<close>

record taxi_map =
  scale :: linear_colormap
  layer :: "(joined_row \<times> style) list"

text \<open>
  \<^verbatim>\<open>create_taxi_map(shapefile_path, prediction_data)\<close>. The first argument of the model is the
  outcome of \<^verbatim>\<open>gpd.read_file(shapefile_path)\<close>. Reprojection (\<^verbatim>\<open>to_crs\<close>) changes the geometry
  only. The same map is stored in \<^verbatim>\<open>st.session_state.map_obj\<close> with \<^verbatim>\<open>map_created = True\<close>.
\<close>

definition create_taxi_map :: "error + zone_row list \<Rightarrow> prediction list \<Rightarrow> error + taxi_map" where
  "create_taxi_map shapefile prediction_data =
     (case shapefile of
        Inl e \<Rightarrow> Inl e
      | Inr zones \<Rightarrow>
          (let nyc_zones = join_zones zones prediction_data
           in case LinearColormap palette (series_min (map demand nyc_zones))
                                          (series_max (map demand nyc_zones)) of
                Inl e \<Rightarrow> Inl e
              | Inr colormap \<Rightarrow>
                  (case style_all colormap nyc_zones of
                     Inl e \<Rightarrow> Inl e
                   | Inr styled \<Rightarrow> Inr \<lparr>scale = colormap, layer = styled\<rparr>)))"

text \<open>
  \<^verbatim>\<open>st_folium(st.session_state.map_obj, ...)\<close> renders the map for the page, and with it the
  colour scale that \<^verbatim>\<open>colormap.add_to(m)\<close> attached; the zones carry the styles computed above.
  The value is the colour range of the legend.
\<close>

definition st_folium :: "taxi_map \<Rightarrow> error + int list list" where
  "st_folium map_obj = render_colormap (scale map_obj)"

section \<open>The shapefile cache\<close>

type_synonym bytes = "nat list"

text \<open>
  What \<^verbatim>\<open>requests.get(url, timeout=10)\<close> meets: no answer within the timeout, no connection,
  or a response with a status code and a body.
\<close>

datatype http_outcome = NoAnswerInTime | NoConnection | Response nat bytes

text \<open>
  \<^verbatim>\<open>requests.get\<close> followed by \<^verbatim>\<open>response.raise_for_status()\<close>: the exception raised, a subclass
  of \<^verbatim>\<open>RequestException\<close> in each case, or \<^verbatim>\<open>response.content\<close>. \<^verbatim>\<open>raise_for_status\<close> raises
  \<^verbatim>\<open>HTTPError\<close> for the client and server error statuses, 400 to 599.
\<close>

definition raise_for_status :: "http_outcome \<Rightarrow> request_exception + bytes" where
  "raise_for_status r =
     (case r of
        NoAnswerInTime \<Rightarrow> Inl Timeout
      | NoConnection \<Rightarrow> Inl ConnectionError
      | Response status_code content \<Rightarrow>
          if 400 \<le> status_code \<and> status_code < 600 then Inl (HTTPError status_code) else Inr content)"

text \<open>
  The state of the data directory: absent, or a directory that may hold the archive
  \<^verbatim>\<open>taxi_zones.zip\<close> and the directory \<^verbatim>\<open>taxi_zones\<close> with its files by name. The three paths
  are taken to be free or of the expected kind (no regular file where a directory is expected
  and no directory named as the archive).
\<close>

datatype dir_state =
    Missing
  | Directory (zip_file: "bytes option") (extract_dir: "(string \<rightharpoonup> bytes) option")

text \<open>
  The world a call acts on: the data directory and the log of the HTTP requests made so far,
  each with its URL and its timeout in seconds.
\<close>

record world =
  data_dir :: dir_state
  requests :: "(string \<times> nat) list"

text \<open>
  What \<^verbatim>\<open>zipfile.ZipFile(zip_path, "r")\<close> and \<^verbatim>\<open>extractall\<close> do with the bytes of an archive: all
  members are written, in archive order; or \<^verbatim>\<open>BadZipFile\<close> is raised; or another exception is
  raised, named by its class (damaged compressed data raises \<^verbatim>\<open>zlib.error\<close>). A failure
  carries what was on disk when it was raised: \<^const>\<open>None\<close> when the archive could not be
  opened, so that nothing was created, otherwise the files written so far, the one being
  written possibly cut short.
\<close>

datatype unzip_outcome =
    Unpacked "(string \<times> bytes) list"
  | BadZipFile "(string \<times> bytes) list option"
  | OtherFailure string "(string \<times> bytes) list option"

text \<open>
  The collaborators outside the script: the server answering a GET, the zip decoder, the
  shapefile reader of geopandas, the sort of pandas, the two read APIs of \<^verbatim>\<open>src.inference\<close>
  with the outcome of their call in this run, \<^verbatim>\<open>plot_prediction\<close> of \<^verbatim>\<open>src.plot_utils\<close>, the
  clock text of the header and the user's choice in the select box.
\<close>

record feature_row =
  feature_location_id :: int
  rides :: "real list"

type_synonym figure = "feature_row list \<times> prediction list"

record env =
  http_get :: "string \<Rightarrow> http_outcome"
  unzip :: "bytes \<Rightarrow> unzip_outcome"
  read_file :: "(string \<rightharpoonup> bytes) \<Rightarrow> error + zone_row list"
  sort_values :: sorter
  load_batch_of_features_from_store :: "error + feature_row list"
  fetch_next_hour_predictions :: "error + prediction list"
  plot_prediction :: "feature_row list \<Rightarrow> prediction list \<Rightarrow> error + figure"
  current_time_text :: string
  select_option :: "string list \<Rightarrow> string"

definition default_url :: string where
  "default_url = ''https://d37ci6vzurychx.cloudfront.net/misc/taxi_zones.zip''"

text \<open>\<^verbatim>\<open>data_dir.mkdir(parents=True, exist_ok=True)\<close>\<close>

definition mkdir :: "dir_state \<Rightarrow> dir_state" where
  "mkdir d = (case d of Missing \<Rightarrow> Directory None None | Directory z x \<Rightarrow> Directory z x)"

text \<open>\<^verbatim>\<open>zip_path.exists()\<close> and \<^verbatim>\<open>shapefile_path.exists()\<close>\<close>

definition zip_exists :: "dir_state \<Rightarrow> bool" where
  "zip_exists d = (case d of Directory (Some _) _ \<Rightarrow> True | _ \<Rightarrow> False)"

definition shapefile_exists :: "dir_state \<Rightarrow> bool" where
  "shapefile_exists d =
     (case d of Directory _ (Some files) \<Rightarrow> files ''taxi_zones.shp'' \<noteq> None | _ \<Rightarrow> False)"

text \<open>
  The first block of \<^verbatim>\<open>load_shape_data_file\<close>: when the archive is absent, one GET with a
  timeout of 10 seconds; a \<^verbatim>\<open>RequestException\<close> becomes
  \<^verbatim>\<open>Exception("Failed to download file: ...")\<close>, otherwise the body is written to the archive.
\<close>

definition download_step :: "env \<Rightarrow> string \<Rightarrow> world \<Rightarrow> error + world" where
  "download_step env url w =
     (if zip_exists (data_dir w) then Inr w
      else (case raise_for_status (http_get env url) of
              Inl ex \<Rightarrow> Inl (Failed_to_download ex)
            | Inr content \<Rightarrow>
                (case data_dir w of
                   Missing \<Rightarrow> Inl FileNotFoundError
                 | Directory z x \<Rightarrow>
                     Inr (w\<lparr>data_dir := Directory (Some content) x,
                            requests := requests w @ [(url, 10)]\<rparr>))))"

text \<open>The world after the first block, whether it raised or not: the request is logged.\<close>

definition after_download :: "string \<Rightarrow> world \<Rightarrow> world" where
  "after_download url w =
     (if zip_exists (data_dir w) then w else w\<lparr>requests := requests w @ [(url, 10)]\<rparr>)"

text \<open>
  The second block: when the shapefile is absent, the archive is extracted into
  \<^verbatim>\<open>taxi_zones\<close>, later members overwriting earlier ones and files already there. \<^verbatim>\<open>BadZipFile\<close>
  becomes \<^verbatim>\<open>Exception("Failed to extract zip file: ...")\<close>; any other exception is not caught
  and leaves the function as it is. In both cases the files written before the exception
  stay on disk.
\<close>

definition extractall :: "(string \<times> bytes) list \<Rightarrow> (string \<rightharpoonup> bytes) option \<Rightarrow> (string \<rightharpoonup> bytes)" where
  "extractall members old =
     (case old of None \<Rightarrow> Map.empty | Some files \<Rightarrow> files) ++ map_of (rev members)"

definition left_on_disk ::
  "(string \<times> bytes) list option \<Rightarrow> (string \<rightharpoonup> bytes) option \<Rightarrow> (string \<rightharpoonup> bytes) option" where
  "left_on_disk written old =
     (case written of None \<Rightarrow> old | Some members \<Rightarrow> Some (extractall members old))"

definition extract_step :: "env \<Rightarrow> world \<Rightarrow> error option \<times> world" where
  "extract_step env w =
     (if shapefile_exists (data_dir w) then (None, w)
      else (case data_dir w of
              Directory (Some archive) x \<Rightarrow>
                (case unzip env archive of
                   Unpacked members \<Rightarrow>
                     (None, w\<lparr>data_dir := Directory (Some archive) (Some (extractall members x))\<rparr>)
                 | BadZipFile written \<Rightarrow>
                     (Some Failed_to_extract,
                      w\<lparr>data_dir := Directory (Some archive) (left_on_disk written x)\<rparr>)
                 | OtherFailure name written \<Rightarrow>
                     (Some (UnzipError name),
                      w\<lparr>data_dir := Directory (Some archive) (left_on_disk written x)\<rparr>))
            | _ \<Rightarrow> (Some FileNotFoundError, w)))"

text \<open>\<^verbatim>\<open>gpd.read_file(shapefile_path)\<close>: fails when the shapefile is not there.\<close>

definition read_shapefile :: "env \<Rightarrow> dir_state \<Rightarrow> error + zone_row list" where
  "read_shapefile env d =
     (case d of
        Directory _ (Some files) \<Rightarrow>
          (if files ''taxi_zones.shp'' = None then Inl ReadFileError else read_file env files)
      | _ \<Rightarrow> Inl ReadFileError)"

text \<open>
  \<^verbatim>\<open>load_shape_data_file(data_dir, url, log)\<close>: the value returned or the exception raised, and
  the world left behind.
\<close>

definition load_shape_data_file :: "env \<Rightarrow> string \<Rightarrow> world \<Rightarrow> (error + zone_row list) \<times> world" where
  "load_shape_data_file env url w =
     (let w1 = w\<lparr>data_dir := mkdir (data_dir w)\<rparr>
      in case download_step env url w1 of
           Inl e \<Rightarrow> (Inl e, after_download url w1)
         | Inr w2 \<Rightarrow>
             (case extract_step env w2 of
                (Some e, w3) \<Rightarrow> (Inl e, w3)
              | (None, w3) \<Rightarrow> (read_shapefile env (data_dir w3), w3)))"

section \<open>The dashboard script\<close>

text \<open>What the page shows, in the order the script emits it.\<close>

datatype ui =
    Title string
  | Header string
  | Progress nat
  | SidebarWrite string
  | Selectbox "string list"
  | Write string "int list"
  | Dataframe "prediction list"
  | Subheader string
  | FoliumMap taxi_map
  | Metric string string
  | PlotlyChart figure

text \<open>
  The elements of the stages that follow the three loading steps: the borough filter, the
  table, the map, the statistics and the charts.
\<close>

fun is_stage_output :: "ui \<Rightarrow> bool" where
  "is_stage_output (Title _) = False"
| "is_stage_output (Header _) = False"
| "is_stage_output (Progress _) = False"
| "is_stage_output (SidebarWrite _) = False"
| "is_stage_output _ = True"

text \<open>
  A run of the script: what was shown, the world left behind, and the exception that ended
  the run, if any. The script catches nothing, so an exception raised by a step ends the run
  there, and Streamlit reports it on the page.
\<close>

record run =
  shown :: "ui list"
  final_world :: world
  raised :: "error option"

text \<open>
  The loop over \<^verbatim>\<open>top10\<close> at the end of the script: one chart per zone identifier, from the
  features and the filtered predictions of that zone.
\<close>

fun plot_top10 :: "env \<Rightarrow> feature_row list \<Rightarrow> prediction list \<Rightarrow> int list \<Rightarrow> ui list \<times> error option" where
  "plot_top10 env features fp [] = ([], None)"
| "plot_top10 env features fp (location_id # rest) =
     (case plot_prediction env (filter (\<lambda>f. feature_location_id f = location_id) features)
                               (filter (\<lambda>r. pickup_location_id r = location_id) fp) of
        Inl e \<Rightarrow> ([], Some e)
      | Inr fig \<Rightarrow> (case plot_top10 env features fp rest of (charts, err) \<Rightarrow> (PlotlyChart fig # charts, err)))"

text \<open>
  The script from the borough drop-down to its end, given the features and the predictions
  that the loading steps returned.
\<close>

definition render_stages :: "env \<Rightarrow> world \<Rightarrow> feature_row list \<Rightarrow> prediction list \<Rightarrow> ui list \<times> error option" where
  "render_stages env w features predictions =
     (let selected_borough = select_option env (borough_options location_df);
          fp = filtered_predictions location_df selected_borough predictions;
          top = [Selectbox (borough_options location_df),
                 Write selected_borough (location_ids location_df selected_borough),
                 Dataframe (displayed_table (sort_values env) fp),
                 Subheader ''Taxi Ride Predictions Map'']
      in case create_taxi_map (read_shapefile env (data_dir w)) fp of
           Inl e \<Rightarrow> (top, Some e)
         | Inr map_obj \<Rightarrow>
             (case st_folium map_obj of
                Inl e \<Rightarrow> (top, Some e)
              | Inr legend \<Rightarrow>
                  (case plot_top10 env features fp (top10 (sort_values env) fp) of
                     (charts, err) \<Rightarrow>
                       (top @ [FoliumMap map_obj,
                               SidebarWrite ''Finished plotting taxi rides demand'',
                               Progress 4,
                               Subheader ''Prediction Statistics'',
                               Metric ''Average Rides'' (fst (metrics fp)),
                               Metric ''Maximum Rides'' (fst (snd (metrics fp))),
                               Metric ''Minimum Rides'' (snd (snd (metrics fp)))] @ charts, err))))"

text \<open>
  The whole script. \<^verbatim>\<open>Progress k\<close> stands for \<^verbatim>\<open>progress_bar.progress(k / N_STEPS)\<close> with
  \<^verbatim>\<open>N_STEPS = 4\<close>; the world is the state of \<^verbatim>\<open>DATA_DIR\<close>.
\<close>

definition run_dashboard :: "env \<Rightarrow> world \<Rightarrow> run" where
  "run_dashboard env w =
     (let ui0 = [Title ''New York Yellow Taxi Cab Demand Next Hour'',
                 Header (current_time_text env), Progress 0]
      in case load_shape_data_file env default_url w of
           (Inl e, w1) \<Rightarrow> \<lparr>shown = ui0, final_world = w1, raised = Some e\<rparr>
         | (Inr geo_df, w1) \<Rightarrow>
             (let ui1 = ui0 @ [SidebarWrite ''Shape file was downloaded'', Progress 1]
              in case load_batch_of_features_from_store env of
                   Inl e \<Rightarrow> \<lparr>shown = ui1, final_world = w1, raised = Some e\<rparr>
                 | Inr features \<Rightarrow>
                     (let ui2 = ui1 @ [SidebarWrite ''Inference features fetched'', Progress 2]
                      in case fetch_next_hour_predictions env of
                           Inl e \<Rightarrow> \<lparr>shown = ui2, final_world = w1, raised = Some e\<rparr>
                         | Inr predictions \<Rightarrow>
                             (let ui3 = ui2 @ [SidebarWrite ''Model predictions loaded'', Progress 3]
                              in case render_stages env w1 features predictions of
                                   (rest, err) \<Rightarrow>
                                     \<lparr>shown = ui3 @ rest, final_world = w1, raised = err\<rparr>))))"

section \<open>Reference data of the claims\<close>

text \<open>The prediction table of the worked example: zones 1, 2 and 3 with demands 50, 200 and 10.\<close>

definition example_predictions :: "prediction list" where
  "example_predictions =
     [\<lparr>pickup_location_id = 1, predicted_demand = 50\<rparr>,
      \<lparr>pickup_location_id = 2, predicted_demand = 200\<rparr>,
      \<lparr>pickup_location_id = 3, predicted_demand = 10\<rparr>]"

text \<open>
  The five boroughs of New York City, and what the specification asks of the borough index
  at a zone identifier: an entry that names one of the five.
\<close>

definition five_boroughs :: "string list" where
  "five_boroughs = [''Manhattan'', ''Brooklyn'', ''Queens'', ''Bronx'', ''Staten Island'']"

definition mapped_to_a_borough :: "location_table \<Rightarrow> int \<Rightarrow> bool" where
  "mapped_to_a_borough m z = (case map_of m z of None \<Rightarrow> False | Some b \<Rightarrow> b \<in> set five_boroughs)"

text \<open>The first colour of the palette, \<^verbatim>\<open>#FFEDA0\<close>, as the opaque bytes the scale returns.\<close>

definition first_colour :: "int list" where
  "first_colour = [255, 237, 160, 255]"

text \<open>The scale that \<^verbatim>\<open>LinearColormap\<close> builds from the palette when both bounds are \<open>d\<close>.\<close>

definition degenerate_scale :: "real \<Rightarrow> linear_colormap" where
  "degenerate_scale d =
     \<lparr>cm_vmin = Some d, cm_vmax = Some d, index = replicate 7 (Some d),
      colors = map parse_color palette\<rparr>"

text \<open>The style of a zone drawn in the first colour.\<close>

definition base_style :: style where
  "base_style = \<lparr>fillColor = first_colour, color = ''black'', weight = 1, fillOpacity = 0.7\<rparr>"

text \<open>
  The exception of the first loading step that raises, in the order of the script: the
  shapefile, the features, the predictions.
\<close>

definition loading_failure :: "env \<Rightarrow> world \<Rightarrow> error option" where
  "loading_failure env w =
     (case fst (load_shape_data_file env default_url w) of
        Inl e \<Rightarrow> Some e
      | Inr _ \<Rightarrow>
          (case load_batch_of_features_from_store env of
             Inl e \<Rightarrow> Some e
           | Inr _ \<Rightarrow> (case fetch_next_hour_predictions env of Inl e \<Rightarrow> Some e | Inr _ \<Rightarrow> None)))"

text \<open>
  Sample inputs: two zones; a data directory with the archive and the shapefile in place, an
  absent one, one whose archive is not a zip file and one whose archive has damaged
  compressed data; collaborators whose server gives a fixed answer and whose feature store
  gives a fixed outcome.
\<close>

definition example_zones :: "zone_row list" where
  "example_zones =
     [\<lparr>LocationID = 1, zone = ''Newark Airport''\<rparr>, \<lparr>LocationID = 2, zone = ''Jamaica Bay''\<rparr>]"

definition cached_world :: world where
  "cached_world =
     \<lparr>data_dir = Directory (Some [80, 75]) (Some [''taxi_zones.shp'' \<mapsto> [0, 0, 39, 10]]),
      requests = []\<rparr>"

definition empty_world :: world where
  "empty_world = \<lparr>data_dir = Missing, requests = []\<rparr>"

definition corrupt_world :: world where
  "corrupt_world = \<lparr>data_dir = Directory (Some [1, 2, 3]) None, requests = []\<rparr>"

definition damaged_world :: world where
  "damaged_world = \<lparr>data_dir = Directory (Some [80, 75, 120]) None, requests = []\<rparr>"

text \<open>
  Two sorts that meet the contract and differ on ties: reverse, sort stably ascending,
  reverse, which keeps rows of equal demand in table order; and sort stably ascending,
  reverse, which turns their order round.
\<close>

definition stable_sort_desc :: sorter where
  "stable_sort_desc rows = rev (sort_key predicted_demand (rev rows))"

definition reversing_sort_desc :: sorter where
  "reversing_sort_desc rows = rev (sort_key predicted_demand rows)"

definition example_env :: "http_outcome \<Rightarrow> error + feature_row list \<Rightarrow> env" where
  "example_env answer features =
     \<lparr>http_get = (\<lambda>url. answer),
      unzip = (\<lambda>archive. if archive = [80, 75] then Unpacked [(''taxi_zones.shp'', [0, 0, 39, 10])]
                          else if archive = [80, 75, 120] then
                            OtherFailure ''zlib.error'' (Some [(''taxi_zones.shp'', [0, 0])])
                          else BadZipFile None),
      read_file = (\<lambda>files. Inr example_zones),
      sort_values = stable_sort_desc,
      load_batch_of_features_from_store = features,
      fetch_next_hour_predictions = Inr [\<lparr>pickup_location_id = 2, predicted_demand = 5\<rparr>],
      plot_prediction = (\<lambda>f p. Inr (f, p)),
      current_time_text = ''2025-03-01 09:00 AM EST'',
      select_option = (\<lambda>options. ''EWR'')\<rparr>"

section \<open>Auxiliary facts\<close>

lemma location_ids_iff: "z \<in> set (location_ids df b) \<longleftrightarrow> (z, b) \<in> set df"
  by (auto simp: location_ids_def image_iff)

lemma filtered_example:
  assumes "set (location_ids df b) = {1, 3}"
  shows "filtered_predictions df b example_predictions =
           [\<lparr>pickup_location_id = 1, predicted_demand = 50\<rparr>,
            \<lparr>pickup_location_id = 3, predicted_demand = 10\<rparr>]"
  using assms by (simp add: filtered_predictions_def example_predictions_def)

lemma two_row_sort:
  assumes "descending_by_demand [a, b] t" and "predicted_demand b < predicted_demand a"
  shows "t = [a, b]"
proof -
  from assms(1) have m: "mset t = mset [a, b]"
    and s: "sorted_wrt (\<lambda>r1 r2. predicted_demand r2 \<le> predicted_demand r1) t"
    by (simp_all add: descending_by_demand_def)
  from m have "length t = 2" by (metis mset_eq_length length_Cons list.size(3) numeral_2_eq_2)
  then obtain x y where t: "t = [x, y]"
    by (metis (no_types) length_0_conv length_Suc_conv numeral_2_eq_2)
  from m have "set t = {a, b}" by (metis mset_eq_setD list.simps(15) empty_set)
  with t have "(x = a \<and> y = b) \<or> (x = b \<and> y = a)"
    by (auto simp: doubleton_eq_iff)
  with s t assms(2) show ?thesis by auto
qed

lemma sort_is_unique_without_ties:
  assumes "descending_by_demand fp t1" and "descending_by_demand fp t2"
    and "distinct (map predicted_demand fp)"
  shows "t1 = t2"
proof -
  let ?f = predicted_demand
  have key: "sorted (rev (map ?f t)) \<and> distinct (rev (map ?f t)) \<and> set (rev (map ?f t)) = ?f ` set fp
             \<and> set t = set fp"
    if "descending_by_demand fp t" for t
  proof -
    from that have m: "mset t = mset fp"
      and s: "sorted_wrt (\<lambda>r1 r2. ?f r2 \<le> ?f r1) t"
      by (simp_all add: descending_by_demand_def)
    from m have "mset (map ?f t) = mset (map ?f fp)" by simp
    then have "distinct (map ?f t)" using assms(3) by (metis mset_eq_imp_distinct_iff)
    moreover from s have "sorted (rev (map ?f t))"
      by (simp add: sorted_wrt_rev sorted_wrt_map)
    moreover from m have "set t = set fp" by (rule mset_eq_setD)
    ultimately show ?thesis by simp
  qed
  from key [OF assms(1)] key [OF assms(2)]
  have "rev (map ?f t1) = rev (map ?f t2)"
    by (intro sorted_distinct_set_unique) simp_all
  then have eq: "map ?f t1 = map ?f t2" by simp
  have "inj_on ?f (set fp)" using assms(3) by (simp add: distinct_map)
  then have "inj_on ?f (set t1 \<union> set t2)"
    using key [OF assms(1)] key [OF assms(2)] by simp
  with eq show ?thesis by (simp add: inj_on_map_eq_map)
qed

lemma sort_of_empty: "descending_by_demand [] t \<Longrightarrow> t = []"
  by (simp add: descending_by_demand_def)

lemma descending_rev:
  "sorted_wrt (\<lambda>r1 r2. predicted_demand r2 \<le> predicted_demand r1) (rev xs) =
     sorted (map predicted_demand xs)"
  by (simp only: sorted_wrt_rev sorted_map)

lemma stable_sort_desc_meets_contract: "descending_by_demand rows (stable_sort_desc rows)"
  unfolding descending_by_demand_def stable_sort_desc_def descending_rev
  by simp

lemma reversing_sort_desc_meets_contract: "descending_by_demand rows (reversing_sort_desc rows)"
  unfolding descending_by_demand_def reversing_sort_desc_def descending_rev
  by simp

text \<open>On rows of equal demand the two sample sorts give the top ten in different orders.\<close>

lemma tie_order_differs:
  "top10 stable_sort_desc [\<lparr>pickup_location_id = 8, predicted_demand = 5\<rparr>,
                           \<lparr>pickup_location_id = 9, predicted_demand = 5\<rparr>] = [8, 9]
   \<and> top10 reversing_sort_desc [\<lparr>pickup_location_id = 8, predicted_demand = 5\<rparr>,
                                \<lparr>pickup_location_id = 9, predicted_demand = 5\<rparr>] = [9, 8]"
  by (simp add: top10_def head10_def stable_sort_desc_def reversing_sort_desc_def)

lemma metrics_example:
  "metrics [\<lparr>pickup_location_id = 1, predicted_demand = 50\<rparr>,
            \<lparr>pickup_location_id = 3, predicted_demand = 10\<rparr>] = (''30'', ''50'', ''10'')"
  by code_simp

lemma merge_one_zone: "r \<in> set (merge_one ps z) \<Longrightarrow> left_row r = z"
  by (auto simp: merge_one_def split: list.splits)

lemma merge_one_nonempty: "merge_one ps z \<noteq> []"
  by (simp add: merge_one_def split: list.splits)

lemma filter_distinct_key:
  "distinct (map f ps) \<Longrightarrow> length (filter (\<lambda>p. f p = k) ps) \<le> 1"
  by (induction ps) (auto simp: image_iff filter_empty_conv)

lemma merge_one_single:
  assumes "distinct (map pickup_location_id ps)"
  shows "map left_row (merge_one ps z) = [z]"
proof -
  have "length (filter (\<lambda>p. pickup_location_id p = LocationID z) ps) \<le> 1"
    using assms by (rule filter_distinct_key)
  then show ?thesis
    by (cases "filter (\<lambda>p. pickup_location_id p = LocationID z) ps") (auto simp: merge_one_def)
qed

lemma merge_left_zones:
  "distinct (map pickup_location_id ps) \<Longrightarrow> map left_row (merge_left zs ps) = zs"
  by (induction zs) (simp_all add: merge_left_def merge_one_single)

lemma merge_one_unmatched:
  assumes "r \<in> set (merge_one ps z)" and "\<forall>p\<in>set ps. pickup_location_id p \<noteq> LocationID z"
  shows "right_predicted_demand r = None"
proof -
  have "filter (\<lambda>p. pickup_location_id p = LocationID z) ps = []"
    using assms(2) by (simp add: filter_empty_conv)
  then show ?thesis using assms(1) by (simp add: merge_one_def)
qed

lemma set_merge_left: "set (merge_left zs ps) = (\<Union>z\<in>set zs. set (merge_one ps z))"
  by (simp add: merge_left_def)

lemma left_row_image: "left_row ` set (merge_left zs ps) = set zs"
proof -
  have "left_row ` set (merge_one ps z) = {z}" for z
    using merge_one_zone [of _ ps z] merge_one_nonempty [of ps z]
    by (cases "merge_one ps z") auto
  then show ?thesis by (auto simp: set_merge_left image_UN)
qed

lemma location_mapping_entries:
  "list_all (\<lambda>(z, b). 1 \<le> z \<and> z \<le> 263 \<and> (b \<in> set five_boroughs \<or> b = ''EWR'')) location_mapping"
  by code_simp

lemma fold_min_const: "\<forall>y\<in>set ys. y = d \<Longrightarrow> fold min ys (d::real) = d"
  by (induction ys) simp_all

lemma fold_max_const: "\<forall>y\<in>set ys. y = d \<Longrightarrow> fold max ys (d::real) = d"
  by (induction ys) simp_all

lemma series_min_const: "xs \<noteq> [] \<Longrightarrow> \<forall>y\<in>set xs. y = d \<Longrightarrow> series_min xs = Some d"
  by (cases xs) (simp_all add: series_min_def fold_min_const)

lemma series_max_const: "xs \<noteq> [] \<Longrightarrow> \<forall>y\<in>set xs. y = d \<Longrightarrow> series_max xs = Some d"
  by (cases xs) (simp_all add: series_max_def fold_max_const)

lemma palette_length: "length palette = 7"
  by (simp add: palette_def)

lemma LinearColormap_palette:
  "LinearColormap palette lo hi =
     Inr \<lparr>cm_vmin = lo, cm_vmax = hi,
          index = map (\<lambda>i. case (lo, hi) of
                                 (Some a, Some b) \<Rightarrow> Some (a + (b - a) * real i / real (7 - 1 :: nat))
                               | _ \<Rightarrow> None) [0..<7],
          colors = map parse_color palette\<rparr>"
  by (simp add: LinearColormap_def palette_length Let_def)

lemma LinearColormap_degenerate: "LinearColormap palette (Some d) (Some d) = Inr (degenerate_scale d)"
  unfolding LinearColormap_palette degenerate_scale_def
  by (simp add: map_replicate_const)

lemma first_colour_bytes: "rgba_bytes (map Some (parse_color (255, 237, 160))) = Inr first_colour"
  by code_simp

lemma colormap_call_lowest:
  assumes "index cm = Some a # rest" and "x \<le> a" and "colors cm = map parse_color palette"
  shows "colormap_call cm x = Inr first_colour"
  using assms
  by (simp add: colormap_call_def py_index_def nan_le_def palette_def first_colour_bytes)

lemma degenerate_call:
  assumes "LinearColormap palette (Some d) (Some d) = Inr cm"
  shows "colormap_call cm d = Inr first_colour"
proof -
  have cm: "index cm = Some d # replicate 6 (Some d)" "colors cm = map parse_color palette"
    using assms unfolding LinearColormap_degenerate
    by (auto simp: degenerate_scale_def eval_nat_numeral)
  then show ?thesis by (intro colormap_call_lowest [where a = d]) simp_all
qed

lemma style_all_const:
  assumes "\<forall>r\<in>set rows. colormap_call cm (demand r) = Inr c"
  shows "style_all cm rows =
           Inr (map (\<lambda>r. (r, \<lparr>fillColor = c, color = ''black'', weight = 1, fillOpacity = 0.7\<rparr>)) rows)"
  using assms by (induction rows) (simp_all add: style_function_def)

lemma create_taxi_map_degenerate:
  assumes "\<forall>r\<in>set (join_zones zones prediction_data). demand r = d"
  shows "\<exists>cm. create_taxi_map (Inr zones) prediction_data =
           Inr \<lparr>scale = cm, layer = map (\<lambda>r. (r, base_style)) (join_zones zones prediction_data)\<rparr>"
proof (cases "join_zones zones prediction_data = []")
  case True
  then show ?thesis
    by (simp add: create_taxi_map_def LinearColormap_palette Let_def)
next
  case False
  let ?rows = "join_zones zones prediction_data"
  have mn: "series_min (map demand ?rows) = Some d" and mx: "series_max (map demand ?rows) = Some d"
    using False assms by (simp_all add: series_min_const series_max_const)
  obtain cm where cm: "LinearColormap palette (Some d) (Some d) = Inr cm"
    by (simp add: LinearColormap_palette)
  have "\<forall>r\<in>set ?rows. colormap_call cm (demand r) = Inr first_colour"
    using assms degenerate_call [OF cm] by simp
  then have "style_all cm ?rows = Inr (map (\<lambda>r. (r, base_style)) ?rows)"
    unfolding base_style_def by (rule style_all_const)
  then show ?thesis
    by (simp add: create_taxi_map_def Let_def mn mx cm)
qed

lemma create_taxi_map_degenerate_scale:
  assumes "\<forall>r\<in>set (join_zones zones prediction_data). demand r = d"
    and "join_zones zones prediction_data \<noteq> []"
  shows "create_taxi_map (Inr zones) prediction_data =
           Inr \<lparr>scale = degenerate_scale d,
                layer = map (\<lambda>r. (r, base_style)) (join_zones zones prediction_data)\<rparr>"
proof -
  let ?rows = "join_zones zones prediction_data"
  have mn: "series_min (map demand ?rows) = Some d" and mx: "series_max (map demand ?rows) = Some d"
    using assms by (simp_all add: series_min_const series_max_const)
  have "\<forall>r\<in>set ?rows. colormap_call (degenerate_scale d) (demand r) = Inr first_colour"
    using assms(1) degenerate_call [OF LinearColormap_degenerate] by simp
  then have "style_all (degenerate_scale d) ?rows = Inr (map (\<lambda>r. (r, base_style)) ?rows)"
    unfolding base_style_def by (rule style_all_const)
  then show ?thesis
    by (simp add: create_taxi_map_def Let_def mn mx LinearColormap_degenerate)
qed

lemma scale_all_const:
  assumes "\<forall>x\<in>set xs. scale_at cm x = Inr c"
  shows "scale_all cm xs = Inr (map (\<lambda>x. c) xs)"
  using assms by (induction xs) simp_all

lemma render_degenerate_scale:
  "st_folium \<lparr>scale = degenerate_scale d, layer = styled\<rparr> = Inr (replicate 500 first_colour)"
proof -
  have dom: "color_domain (degenerate_scale d) = replicate 500 (Some d)"
    by (simp add: color_domain_def degenerate_scale_def map_replicate_const)
  have "scale_at (degenerate_scale d) (Some d) = Inr first_colour"
    using degenerate_call [OF LinearColormap_degenerate] by (simp add: scale_at_def)
  then have "scale_all (degenerate_scale d) (replicate 500 (Some d)) =
               Inr (map (\<lambda>x. first_colour) (replicate 500 (Some d)))"
    by (intro scale_all_const) simp
  then show ?thesis by (simp add: st_folium_def render_colormap_def dom)
qed

lemma create_taxi_map_no_zones:
  "create_taxi_map (Inr []) prediction_data =
     Inr \<lparr>scale = \<lparr>cm_vmin = None, cm_vmax = None, index = replicate 7 None,
                    colors = map parse_color palette\<rparr>,
          layer = []\<rparr>"
  by (simp add: create_taxi_map_def join_zones_def fillna0_def merge_left_def series_min_def
        series_max_def LinearColormap_palette map_replicate_const)

lemma scale_all_first_fails:
  assumes "scale_at cm x = Inl e" and "0 < n"
  shows "scale_all cm (replicate n x) = Inl e"
  using assms by (cases n) simp_all

lemma render_nan_scale:
  "st_folium \<lparr>scale = \<lparr>cm_vmin = None, cm_vmax = None, index = replicate 7 None,
                        colors = map parse_color palette\<rparr>,
              layer = styled\<rparr> = Inl ValueError"
proof -
  let ?cm = "\<lparr>cm_vmin = None, cm_vmax = None, index = replicate 7 None,
              colors = map parse_color palette\<rparr>"
  have at: "scale_at ?cm None = Inl ValueError"
    by (simp add: scale_at_def colormap_call_nan_def py_index_def position_of_nan_def mix_def
          rgba_bytes_def palette_def parse_color_def eval_nat_numeral)
  have dom: "color_domain ?cm = replicate 500 None"
    by (simp add: color_domain_def map_replicate_const)
  have "scale_all ?cm (replicate 500 None) = Inl ValueError"
    using at by (rule scale_all_first_fails) simp
  then show ?thesis by (simp add: st_folium_def render_colormap_def dom)
qed

lemma join_zones_no_predictions:
  "join_zones zones [] =
     map (\<lambda>z. \<lparr>zone_of = z, joined_pickup_location_id = None, demand = 0\<rparr>) zones"
  by (induction zones) (simp_all add: join_zones_def fillna0_def merge_left_def merge_one_def)

lemma example_join:
  "join_zones example_zones
     [\<lparr>pickup_location_id = 1, predicted_demand = 5\<rparr>, \<lparr>pickup_location_id = 2, predicted_demand = 5\<rparr>] =
   [\<lparr>zone_of = \<lparr>LocationID = 1, zone = ''Newark Airport''\<rparr>, joined_pickup_location_id = Some 1,
      demand = 5\<rparr>,
    \<lparr>zone_of = \<lparr>LocationID = 2, zone = ''Jamaica Bay''\<rparr>, joined_pickup_location_id = Some 2,
      demand = 5\<rparr>]"
  by (simp add: example_zones_def join_zones_def fillna0_def merge_left_def merge_one_def)

lemma metrics_empty: "metrics [] = (''nan'', ''nan'', ''nan'')"
  by (simp add: metrics_def series_mean_def series_max_def series_min_def format_0f_def)

lemma no_match_filtered:
  assumes "\<forall>p\<in>set predictions. (pickup_location_id p, b) \<notin> set df"
  shows "filtered_predictions df b predictions = []"
  using assms by (simp add: filtered_predictions_def location_ids_iff filter_empty_conv)

lemma cached_load:
  assumes "zip_exists (data_dir w)" and "shapefile_exists (data_dir w)"
  shows "load_shape_data_file env url w = (read_shapefile env (data_dir w), w)"
proof -
  from assms(1) obtain a x where d: "data_dir w = Directory (Some a) x"
    by (auto simp: zip_exists_def split: dir_state.splits option.splits)
  then have "w\<lparr>data_dir := mkdir (data_dir w)\<rparr> = w" by (simp add: mkdir_def)
  then show ?thesis using assms
    by (simp add: load_shape_data_file_def download_step_def extract_step_def)
qed

lemma zip_exists_mkdir: "zip_exists (mkdir d) = zip_exists d"
  by (simp add: mkdir_def zip_exists_def split: dir_state.splits)

lemma shapefile_exists_mkdir: "shapefile_exists (mkdir d) = shapefile_exists d"
  by (simp add: mkdir_def shapefile_exists_def split: dir_state.splits option.splits)

lemma mkdir_without_zip:
  assumes "\<not> zip_exists d"
  shows "\<exists>x. mkdir d = Directory None x"
  using assms by (cases d) (auto simp: mkdir_def zip_exists_def split: option.splits)

lemma extract_step_requests: "requests (snd (extract_step env w)) = requests w"
  by (simp add: extract_step_def split: dir_state.splits option.splits unzip_outcome.splits)

lemma load_requests:
  assumes "\<not> zip_exists (data_dir w)"
  shows "requests (snd (load_shape_data_file env url w)) = requests w @ [(url, 10)]"
proof -
  obtain x where m: "mkdir (data_dir w) = Directory None x"
    using assms mkdir_without_zip by blast
  show ?thesis
  proof (cases "raise_for_status (http_get env url)")
    case (Inl ex)
    with m show ?thesis
      by (simp add: load_shape_data_file_def download_step_def after_download_def zip_exists_def)
  next
    case (Inr content)
    let ?w2 = "w\<lparr>data_dir := Directory (Some content) x, requests := requests w @ [(url, 10)]\<rparr>"
    have d: "download_step env url (w\<lparr>data_dir := mkdir (data_dir w)\<rparr>) = Inr ?w2"
      using m Inr by (simp add: download_step_def zip_exists_def)
    obtain failure w3 where e: "extract_step env ?w2 = (failure, w3)"
      by (cases "extract_step env ?w2")
    then have "requests w3 = requests ?w2"
      using extract_step_requests [of env ?w2] by simp
    with d e show ?thesis
      by (cases failure) (simp_all add: load_shape_data_file_def)
  qed
qed

lemma load_download_fails:
  assumes "\<not> zip_exists (data_dir w)" and "raise_for_status (http_get env url) = Inl ex"
  shows "fst (load_shape_data_file env url w) = Inl (Failed_to_download ex)"
  using assms by (simp add: load_shape_data_file_def download_step_def zip_exists_mkdir Let_def)

lemma load_extract_fails_cached:
  assumes "data_dir w = Directory (Some archive) x" and "\<not> shapefile_exists (data_dir w)"
    and "unzip env archive = BadZipFile written"
  shows "fst (load_shape_data_file env url w) = Inl Failed_to_extract"
proof -
  have "w\<lparr>data_dir := mkdir (data_dir w)\<rparr> = w" using assms(1) by (simp add: mkdir_def)
  then show ?thesis using assms
    by (simp add: load_shape_data_file_def download_step_def extract_step_def zip_exists_def)
qed

lemma load_extract_fails_downloaded:
  assumes "\<not> zip_exists (data_dir w)" and "\<not> shapefile_exists (data_dir w)"
    and "raise_for_status (http_get env url) = Inr archive"
    and "unzip env archive = BadZipFile written"
  shows "fst (load_shape_data_file env url w) = Inl Failed_to_extract"
proof -
  obtain x where m: "mkdir (data_dir w) = Directory None x"
    using assms(1) mkdir_without_zip by blast
  have "\<not> shapefile_exists (Directory None x)"
    using assms(2) m shapefile_exists_mkdir [of "data_dir w"] by simp
  then have ns: "\<not> shapefile_exists (Directory (Some archive) x)"
    by (simp add: shapefile_exists_def)
  show ?thesis using assms(3,4) m ns
    by (simp add: load_shape_data_file_def download_step_def extract_step_def zip_exists_def)
qed

lemma cached_world_ready:
  "zip_exists (data_dir cached_world)" "shapefile_exists (data_dir cached_world)"
  by (simp_all add: cached_world_def zip_exists_def shapefile_exists_def)

lemma cached_world_read:
  "read_shapefile (example_env answer features) (data_dir cached_world) = Inr example_zones"
  by (simp add: read_shapefile_def cached_world_def example_env_def)

section \<open>The zone join\<close>

text \<open>
  Claim C1, as the code has it. The left join keeps the zones in their order. When no two
  prediction rows share a zone identifier, the joined frame has exactly one row per input
  zone. For every prediction table, every zone appears in the joined frame and nothing else
  does, and every row of a zone without a matching prediction row carries the demand 0.
\<close>

theorem left_join_rows:
  "(distinct (map pickup_location_id prediction_data) \<longrightarrow>
      map zone_of (join_zones nyc_zones prediction_data) = nyc_zones)
   \<and> zone_of ` set (join_zones nyc_zones prediction_data) = set nyc_zones
   \<and> (\<forall>r\<in>set (join_zones nyc_zones prediction_data).
        (\<forall>p\<in>set prediction_data. pickup_location_id p \<noteq> LocationID (zone_of r)) \<longrightarrow> demand r = 0)"
proof (intro conjI impI ballI)
  assume "distinct (map pickup_location_id prediction_data)"
  then show "map zone_of (join_zones nyc_zones prediction_data) = nyc_zones"
    using merge_left_zones [of prediction_data nyc_zones]
    by (simp add: join_zones_def fillna0_def comp_def)
next
  show "zone_of ` set (join_zones nyc_zones prediction_data) = set nyc_zones"
    using left_row_image [of nyc_zones prediction_data]
    by (simp add: join_zones_def fillna0_def image_image)
next
  fix r
  assume r: "r \<in> set (join_zones nyc_zones prediction_data)"
    and un: "\<forall>p\<in>set prediction_data. pickup_location_id p \<noteq> LocationID (zone_of r)"
  from r obtain m z where m: "m \<in> set (merge_one prediction_data z)"
    and rm: "zone_of r = left_row m"
            "demand r = (case right_predicted_demand m of None \<Rightarrow> 0 | Some d \<Rightarrow> d)"
    by (auto simp: join_zones_def fillna0_def set_merge_left)
  from m have "left_row m = z" by (rule merge_one_zone)
  with un rm have "\<forall>p\<in>set prediction_data. pickup_location_id p \<noteq> LocationID z" by simp
  with m have "right_predicted_demand m = None" by (rule merge_one_unmatched)
  with rm show "demand r = 0" by simp
qed

text \<open>
  Two zones and one prediction for the first: the table has distinct identifiers, the joined
  frame has the two zones, and the row of the second zone, which no prediction matches,
  carries 0.
\<close>

theorem left_join_rows_witness:
  "distinct (map pickup_location_id [\<lparr>pickup_location_id = 1, predicted_demand = 5\<rparr>])
   \<and> map zone_of (join_zones [\<lparr>LocationID = 1, zone = ''Newark Airport''\<rparr>,
                               \<lparr>LocationID = 2, zone = ''Jamaica Bay''\<rparr>]
                              [\<lparr>pickup_location_id = 1, predicted_demand = 5\<rparr>]) =
       [\<lparr>LocationID = 1, zone = ''Newark Airport''\<rparr>, \<lparr>LocationID = 2, zone = ''Jamaica Bay''\<rparr>]
   \<and> \<lparr>zone_of = \<lparr>LocationID = 2, zone = ''Jamaica Bay''\<rparr>, joined_pickup_location_id = None,
       demand = 0\<rparr>
       \<in> set (join_zones [\<lparr>LocationID = 1, zone = ''Newark Airport''\<rparr>,
                           \<lparr>LocationID = 2, zone = ''Jamaica Bay''\<rparr>]
                          [\<lparr>pickup_location_id = 1, predicted_demand = 5\<rparr>])"
  using left_join_rows [of "[\<lparr>pickup_location_id = 1, predicted_demand = 5\<rparr>]"
                           "[\<lparr>LocationID = 1, zone = ''Newark Airport''\<rparr>,
                             \<lparr>LocationID = 2, zone = ''Jamaica Bay''\<rparr>]"]
  by (simp add: join_zones_def fillna0_def merge_left_def merge_one_def)

text \<open>
  Claim C1 as stated fails when two prediction rows name the same zone: one zone and two
  predictions for it give two output rows.
\<close>

theorem left_join_counterexample:
  "map zone_of (join_zones [\<lparr>LocationID = 1, zone = ''Newark Airport''\<rparr>]
       [\<lparr>pickup_location_id = 1, predicted_demand = 5\<rparr>,
        \<lparr>pickup_location_id = 1, predicted_demand = 7\<rparr>]) =
     [\<lparr>LocationID = 1, zone = ''Newark Airport''\<rparr>, \<lparr>LocationID = 1, zone = ''Newark Airport''\<rparr>]"
  by (simp add: join_zones_def fillna0_def merge_left_def merge_one_def)

section \<open>The filtered table, the statistics and the top ten\<close>

text \<open>
  Claim C4. With the predictions (1, 50), (2, 200), (3, 10) and a borough whose zone
  identifiers are 1 and 3, the table shows zone 1 with 50 and then zone 3 with 10, and the
  three statistics read 30, 50 and 10. This holds for every sort that orders the filtered
  table by non-increasing demand.
\<close>

theorem example_table_and_statistics:
  assumes "set (location_ids df b) = {1, 3}"
    and "descending_by_demand (filtered_predictions df b example_predictions)
           (srt (filtered_predictions df b example_predictions))"
  shows "displayed_table srt (filtered_predictions df b example_predictions) =
           [\<lparr>pickup_location_id = 1, predicted_demand = 50\<rparr>,
            \<lparr>pickup_location_id = 3, predicted_demand = 10\<rparr>]
         \<and> metrics (filtered_predictions df b example_predictions) = (''30'', ''50'', ''10'')"
proof -
  let ?rows = "[\<lparr>pickup_location_id = 1, predicted_demand = 50\<rparr>,
                \<lparr>pickup_location_id = 3, predicted_demand = 10\<rparr>]"
  have fp: "filtered_predictions df b example_predictions = ?rows"
    using assms(1) by (rule filtered_example)
  with assms(2) have "descending_by_demand ?rows (srt ?rows)" by simp
  then have "srt ?rows = ?rows" by (rule two_row_sort) simp
  then show ?thesis
    by (simp add: fp displayed_table_def head10_def metrics_example)
qed

text \<open>
  An index in which the Bronx has the zones 1 and 3, and the sort that turns the order of
  tied rows round.
\<close>

theorem example_table_and_statistics_witness:
  "set (location_ids [(1, ''Bronx''), (2, ''Queens''), (3, ''Bronx'')] ''Bronx'') = {1, 3}
   \<and> descending_by_demand
       (filtered_predictions [(1, ''Bronx''), (2, ''Queens''), (3, ''Bronx'')] ''Bronx''
          example_predictions)
       (reversing_sort_desc
          (filtered_predictions [(1, ''Bronx''), (2, ''Queens''), (3, ''Bronx'')] ''Bronx''
             example_predictions))
   \<and> displayed_table reversing_sort_desc
       (filtered_predictions [(1, ''Bronx''), (2, ''Queens''), (3, ''Bronx'')]
          ''Bronx'' example_predictions) =
       [\<lparr>pickup_location_id = 1, predicted_demand = 50\<rparr>,
        \<lparr>pickup_location_id = 3, predicted_demand = 10\<rparr>]
   \<and> metrics (filtered_predictions [(1, ''Bronx''), (2, ''Queens''), (3, ''Bronx'')]
                 ''Bronx'' example_predictions) = (''30'', ''50'', ''10'')"
proof -
  have h: "set (location_ids [(1, ''Bronx''), (2, ''Queens''), (3, ''Bronx'')] ''Bronx'') = {1, 3}"
    by (simp add: location_ids_def)
  have c: "descending_by_demand
       (filtered_predictions [(1, ''Bronx''), (2, ''Queens''), (3, ''Bronx'')] ''Bronx''
          example_predictions)
       (reversing_sort_desc
          (filtered_predictions [(1, ''Bronx''), (2, ''Queens''), (3, ''Bronx'')] ''Bronx''
             example_predictions))"
    by (rule reversing_sort_desc_meets_contract)
  from example_table_and_statistics [where srt = reversing_sort_desc, OF h c] h c
  show ?thesis by blast
qed

text \<open>
  Claim C9. Two prediction tables with the same rows for the zones that the index maps to
  the selected borough give the same table, the same three statistics and the same top ten,
  whatever their other rows are and whatever the sort does with ties.
\<close>

theorem outputs_depend_on_borough_rows_only:
  assumes "filter (\<lambda>r. (pickup_location_id r, b) \<in> set df) p1 =
           filter (\<lambda>r. (pickup_location_id r, b) \<in> set df) p2"
  shows "displayed_table srt (filtered_predictions df b p1) = displayed_table srt (filtered_predictions df b p2)
       \<and> metrics (filtered_predictions df b p1) = metrics (filtered_predictions df b p2)
       \<and> top10 srt (filtered_predictions df b p1) = top10 srt (filtered_predictions df b p2)"
proof -
  have "filtered_predictions df b p1 = filtered_predictions df b p2"
    using assms by (simp add: filtered_predictions_def location_ids_iff)
  then show ?thesis by simp
qed

theorem outputs_depend_on_borough_rows_only_witness:
  "filter (\<lambda>r. (pickup_location_id r, ''Queens'') \<in> set location_df)
          [\<lparr>pickup_location_id = 2, predicted_demand = 5\<rparr>,
           \<lparr>pickup_location_id = 3, predicted_demand = 7\<rparr>] =
   filter (\<lambda>r. (pickup_location_id r, ''Queens'') \<in> set location_df)
          [\<lparr>pickup_location_id = 4, predicted_demand = 9\<rparr>,
           \<lparr>pickup_location_id = 2, predicted_demand = 5\<rparr>]
   \<and> displayed_table stable_sort_desc (filtered_predictions location_df ''Queens''
          [\<lparr>pickup_location_id = 2, predicted_demand = 5\<rparr>,
           \<lparr>pickup_location_id = 3, predicted_demand = 7\<rparr>]) =
     displayed_table stable_sort_desc (filtered_predictions location_df ''Queens''
          [\<lparr>pickup_location_id = 4, predicted_demand = 9\<rparr>,
           \<lparr>pickup_location_id = 2, predicted_demand = 5\<rparr>])
   \<and> metrics (filtered_predictions location_df ''Queens''
          [\<lparr>pickup_location_id = 2, predicted_demand = 5\<rparr>,
           \<lparr>pickup_location_id = 3, predicted_demand = 7\<rparr>]) =
     metrics (filtered_predictions location_df ''Queens''
          [\<lparr>pickup_location_id = 4, predicted_demand = 9\<rparr>,
           \<lparr>pickup_location_id = 2, predicted_demand = 5\<rparr>])
   \<and> top10 stable_sort_desc (filtered_predictions location_df ''Queens''
          [\<lparr>pickup_location_id = 2, predicted_demand = 5\<rparr>,
           \<lparr>pickup_location_id = 3, predicted_demand = 7\<rparr>]) =
     top10 stable_sort_desc (filtered_predictions location_df ''Queens''
          [\<lparr>pickup_location_id = 4, predicted_demand = 9\<rparr>,
           \<lparr>pickup_location_id = 2, predicted_demand = 5\<rparr>])"
proof -
  have h: "filter (\<lambda>r. (pickup_location_id r, ''Queens'') \<in> set location_df)
          [\<lparr>pickup_location_id = 2, predicted_demand = 5\<rparr>,
           \<lparr>pickup_location_id = 3, predicted_demand = 7\<rparr>] =
   filter (\<lambda>r. (pickup_location_id r, ''Queens'') \<in> set location_df)
          [\<lparr>pickup_location_id = 4, predicted_demand = 9\<rparr>,
           \<lparr>pickup_location_id = 2, predicted_demand = 5\<rparr>]"
    by (simp add: location_df_def location_mapping_def)
  from outputs_depend_on_borough_rows_only [OF h, where srt = stable_sort_desc] h
  show ?thesis by (intro conjI) simp_all
qed

text \<open>
  Claim C10. The same sort applied to the same filtered table gives the table and the list of
  chart zones: the zone identifiers for which a chart is plotted are the identifier column of
  the rows shown in the ranked table, in the same order, and there are at most ten of them.
  The agreement does not rest on the two computations breaking ties alike when there are no
  ties: if no two rows of the filtered table have the same demand, the chart zones computed
  with one sort and the table computed with any other sort agree, as long as both order the
  table by non-increasing demand.
\<close>

theorem top10_agrees_with_table:
  "top10 srt fp = map pickup_location_id (displayed_table srt fp)
   \<and> length (top10 srt fp) \<le> 10
   \<and> (descending_by_demand fp (srt1 fp) \<and> descending_by_demand fp (srt2 fp)
        \<and> distinct (map predicted_demand fp) \<longrightarrow>
      top10 srt1 fp = map pickup_location_id (displayed_table srt2 fp))"
proof (intro conjI impI)
  show "top10 srt fp = map pickup_location_id (displayed_table srt fp)"
    by (simp add: top10_def displayed_table_def)
  show "length (top10 srt fp) \<le> 10"
    by (simp add: top10_def head10_def)
next
  assume a: "descending_by_demand fp (srt1 fp) \<and> descending_by_demand fp (srt2 fp)
             \<and> distinct (map predicted_demand fp)"
  then have "srt1 fp = srt2 fp"
    using sort_is_unique_without_ties by blast
  then show "top10 srt1 fp = map pickup_location_id (displayed_table srt2 fp)"
    by (simp add: top10_def displayed_table_def)
qed

text \<open>
  Two rows with the demands 5 and 9, sorted once keeping and once reversing the order of
  ties: both sorts meet the contract, and the chart zones of the first are the identifier
  column of the table of the second.
\<close>

theorem top10_agrees_with_table_witness:
  "descending_by_demand
     [\<lparr>pickup_location_id = 1, predicted_demand = 5\<rparr>, \<lparr>pickup_location_id = 2, predicted_demand = 9\<rparr>]
     (stable_sort_desc
        [\<lparr>pickup_location_id = 1, predicted_demand = 5\<rparr>, \<lparr>pickup_location_id = 2, predicted_demand = 9\<rparr>])
   \<and> descending_by_demand
     [\<lparr>pickup_location_id = 1, predicted_demand = 5\<rparr>, \<lparr>pickup_location_id = 2, predicted_demand = 9\<rparr>]
     (reversing_sort_desc
        [\<lparr>pickup_location_id = 1, predicted_demand = 5\<rparr>, \<lparr>pickup_location_id = 2, predicted_demand = 9\<rparr>])
   \<and> distinct (map predicted_demand
        [\<lparr>pickup_location_id = 1, predicted_demand = 5\<rparr>, \<lparr>pickup_location_id = 2, predicted_demand = 9\<rparr>])
   \<and> top10 stable_sort_desc
        [\<lparr>pickup_location_id = 1, predicted_demand = 5\<rparr>, \<lparr>pickup_location_id = 2, predicted_demand = 9\<rparr>] =
      map pickup_location_id (displayed_table reversing_sort_desc
        [\<lparr>pickup_location_id = 1, predicted_demand = 5\<rparr>, \<lparr>pickup_location_id = 2, predicted_demand = 9\<rparr>])"
proof -
  let ?fp = "[\<lparr>pickup_location_id = 1, predicted_demand = 5\<rparr>,
              \<lparr>pickup_location_id = 2, predicted_demand = 9\<rparr>]"
  have c1: "descending_by_demand ?fp (stable_sort_desc ?fp)"
    by (rule stable_sort_desc_meets_contract)
  have c2: "descending_by_demand ?fp (reversing_sort_desc ?fp)"
    by (rule reversing_sort_desc_meets_contract)
  have d: "distinct (map predicted_demand ?fp)" by simp
  from top10_agrees_with_table [of stable_sort_desc ?fp stable_sort_desc reversing_sort_desc]
    c1 c2 d
  show ?thesis by blast
qed

section \<open>Coverage of the borough index\<close>

text \<open>
  Claim C8, as the code has it. Every zone identifier that the borough index maps lies among
  the 263 zone identifiers and is mapped to one of the five boroughs or to EWR, the airport
  at Newark.
\<close>

theorem borough_index_entries:
  assumes "map_of location_mapping z = Some b"
  shows "1 \<le> z \<and> z \<le> 263 \<and> (b \<in> set five_boroughs \<or> b = ''EWR'')"
proof -
  have "(z, b) \<in> set location_mapping" using assms by (rule map_of_SomeD)
  with location_mapping_entries show ?thesis
    unfolding list_all_iff by blast
qed

theorem borough_index_entries_witness:
  "map_of location_mapping 1 = Some ''EWR'' \<and> (1::int) \<le> 1 \<and> (1::int) \<le> 263
   \<and> (''EWR'' \<in> set five_boroughs \<or> ''EWR'' = ''EWR'')"
proof -
  have h: "map_of location_mapping 1 = Some ''EWR''" by (simp add: location_mapping_def)
  show ?thesis using h borough_index_entries [OF h] by simp
qed

text \<open>
  Claim C8 as stated fails on the index of the source: zone 1 is mapped to EWR, which is not
  one of the five boroughs, and zone 16 has no entry.
\<close>

theorem borough_index_counterexample:
  "(1::int) \<in> {1..263} \<and> \<not> mapped_to_a_borough location_mapping 1
   \<and> (16::int) \<in> {1..263} \<and> \<not> mapped_to_a_borough location_mapping 16"
  by (simp add: mapped_to_a_borough_def location_mapping_def five_boroughs_def)

section \<open>The degenerate colour scale\<close>

text \<open>
  Claim C2. When all demands of the joined zones are equal, building the map from a shapefile
  that was read raises nothing: the map has one styled feature per joined row, and every
  style has the same fill colour, the first colour of the palette.
\<close>

theorem degenerate_scale_renders:
  assumes "\<forall>r\<in>set (join_zones zones prediction_data). demand r = d"
  shows "\<exists>m. create_taxi_map (Inr zones) prediction_data = Inr m
            \<and> map fst (layer m) = join_zones zones prediction_data
            \<and> (\<forall>s\<in>set (map snd (layer m)). fillColor s = first_colour)"
proof -
  from create_taxi_map_degenerate [OF assms] obtain cm where
    "create_taxi_map (Inr zones) prediction_data =
       Inr \<lparr>scale = cm, layer = map (\<lambda>r. (r, base_style)) (join_zones zones prediction_data)\<rparr>" ..
  then show ?thesis by (simp add: comp_def base_style_def)
qed

text \<open>Two zones with the demand 5 each: the map is built and both zones get the first colour.\<close>

theorem degenerate_scale_renders_witness:
  "map demand (join_zones example_zones
        [\<lparr>pickup_location_id = 1, predicted_demand = 5\<rparr>,
         \<lparr>pickup_location_id = 2, predicted_demand = 5\<rparr>]) = [5, 5]
   \<and> (\<exists>m. create_taxi_map (Inr example_zones)
        [\<lparr>pickup_location_id = 1, predicted_demand = 5\<rparr>,
         \<lparr>pickup_location_id = 2, predicted_demand = 5\<rparr>] = Inr m
         \<and> map (\<lambda>f. fillColor (snd f)) (layer m) = [first_colour, first_colour])"
proof -
  let ?ps = "[\<lparr>pickup_location_id = 1, predicted_demand = 5\<rparr>,
              \<lparr>pickup_location_id = 2, predicted_demand = 5\<rparr>]"
  have h: "\<forall>r\<in>set (join_zones example_zones ?ps). demand r = 5"
    by (simp add: example_join)
  from degenerate_scale_renders [OF h] obtain m where
    m: "create_taxi_map (Inr example_zones) ?ps = Inr m"
       "map fst (layer m) = join_zones example_zones ?ps"
       "\<forall>s\<in>set (map snd (layer m)). fillColor s = first_colour"
    by blast
  from m(2) have "length (layer m) = 2"
    unfolding example_join by (metis length_map length_Cons list.size(3) numeral_2_eq_2)
  then obtain a b where "layer m = [a, b]"
    by (metis (no_types) length_0_conv length_Suc_conv numeral_2_eq_2)
  with m(3) have "map (\<lambda>f. fillColor (snd f)) (layer m) = [first_colour, first_colour]" by simp
  with m(1) show ?thesis by (auto simp: example_join)
qed

section \<open>A borough without predictions\<close>

text \<open>
  With no zone in the shapefile the bounds of the colour scale are NaN, and rendering the map
  raises \<^verbatim>\<open>ValueError\<close>: the run ends after the heading of the map.
\<close>

lemma no_zone_raises:
  assumes "read_shapefile env (data_dir w) = Inr []"
  shows "snd (render_stages env w features predictions) = Some ValueError
       \<and> length (fst (render_stages env w features predictions)) = 4"
  by (simp add: render_stages_def Let_def assms create_taxi_map_no_zones render_nan_scale)

text \<open>
  Claim C7. When no row of the prediction table belongs to a zone of the selected borough
  and the shapefile is read with at least one zone, the stages after loading run to the end
  without an exception: the table is empty, the three statistics read \<^verbatim>\<open>nan\<close>, no chart is
  plotted, and the map shows every zone with demand 0 in the first colour of the scale. The
  sort is any sort that orders the filtered table by non-increasing demand.
\<close>

theorem no_matching_zone_renders:
  assumes "\<forall>p\<in>set predictions.
             (pickup_location_id p, select_option env (borough_options location_df)) \<notin> set location_df"
    and "read_shapefile env (data_dir w) = Inr zones"
    and "zones \<noteq> []"
    and "descending_by_demand
           (filtered_predictions location_df (select_option env (borough_options location_df))
              predictions)
           (sort_values env
              (filtered_predictions location_df (select_option env (borough_options location_df))
                 predictions))"
  shows "render_stages env w features predictions =
           ([Selectbox (borough_options location_df),
             Write (select_option env (borough_options location_df))
                   (location_ids location_df (select_option env (borough_options location_df))),
             Dataframe [],
             Subheader ''Taxi Ride Predictions Map'',
             FoliumMap \<lparr>scale = degenerate_scale 0,
                        layer = map (\<lambda>z. (\<lparr>zone_of = z, joined_pickup_location_id = None, demand = 0\<rparr>,
                                          base_style)) zones\<rparr>,
             SidebarWrite ''Finished plotting taxi rides demand'',
             Progress 4,
             Subheader ''Prediction Statistics'',
             Metric ''Average Rides'' ''nan'',
             Metric ''Maximum Rides'' ''nan'',
             Metric ''Minimum Rides'' ''nan''], None)"
proof -
  let ?b = "select_option env (borough_options location_df)"
  have fp: "filtered_predictions location_df ?b predictions = []"
    using assms(1) by (rule no_match_filtered)
  have srt: "sort_values env [] = []"
    using assms(4) unfolding fp by (rule sort_of_empty)
  have all0: "\<forall>r\<in>set (join_zones zones []). demand r = 0"
    by (simp add: join_zones_no_predictions)
  have ne: "join_zones zones [] \<noteq> []"
    using assms(3) by (simp add: join_zones_no_predictions)
  have m: "create_taxi_map (Inr zones) [] =
          Inr \<lparr>scale = degenerate_scale 0,
               layer = map (\<lambda>r. (r, base_style)) (join_zones zones [])\<rparr>"
    using all0 ne by (rule create_taxi_map_degenerate_scale)
  have tbl: "displayed_table (sort_values env) [] = []" and top: "top10 (sort_values env) [] = []"
    by (simp_all add: displayed_table_def top10_def head10_def srt)
  show ?thesis
    by (simp add: render_stages_def Let_def fp assms(2) m render_degenerate_scale tbl top
          metrics_empty join_zones_no_predictions comp_def)
qed

text \<open>
  The borough EWR, whose only zone is 1, with a single prediction for zone 2 and a shapefile
  of two zones: the third element shown is the empty table, the run ends with the three
  statistics, and nothing is raised.
\<close>

theorem no_matching_zone_renders_witness:
  "pickup_location_id ` set [\<lparr>pickup_location_id = 2, predicted_demand = 5\<rparr>]
     \<inter> set (location_ids location_df ''EWR'') = {}
   \<and> read_shapefile (example_env NoConnection (Inr [])) (data_dir cached_world) = Inr example_zones
   \<and> example_zones \<noteq> []
   \<and> fst (render_stages (example_env NoConnection (Inr [])) cached_world []
             [\<lparr>pickup_location_id = 2, predicted_demand = 5\<rparr>]) ! 2 = Dataframe []
   \<and> drop 5 (fst (render_stages (example_env NoConnection (Inr [])) cached_world []
             [\<lparr>pickup_location_id = 2, predicted_demand = 5\<rparr>])) =
       [SidebarWrite ''Finished plotting taxi rides demand'', Progress 4,
        Subheader ''Prediction Statistics'', Metric ''Average Rides'' ''nan'',
        Metric ''Maximum Rides'' ''nan'', Metric ''Minimum Rides'' ''nan'']
   \<and> snd (render_stages (example_env NoConnection (Inr [])) cached_world []
             [\<lparr>pickup_location_id = 2, predicted_demand = 5\<rparr>]) = None"
proof -
  let ?env = "example_env NoConnection (Inr [])"
  let ?ps = "[\<lparr>pickup_location_id = 2, predicted_demand = 5\<rparr>]"
  have sel: "select_option ?env (borough_options location_df) = ''EWR''"
    and srt: "sort_values ?env = stable_sort_desc"
    by (simp_all add: example_env_def)
  have h1: "\<forall>p\<in>set ?ps.
             (pickup_location_id p, select_option ?env (borough_options location_df)) \<notin> set location_df"
    unfolding sel by (simp add: location_df_def location_mapping_def)
  have h2: "read_shapefile ?env (data_dir cached_world) = Inr example_zones"
    by (rule cached_world_read)
  have h3: "example_zones \<noteq> []" by (simp add: example_zones_def)
  have h4: "descending_by_demand
           (filtered_predictions location_df (select_option ?env (borough_options location_df)) ?ps)
           (sort_values ?env
              (filtered_predictions location_df (select_option ?env (borough_options location_df)) ?ps))"
    unfolding srt by (rule stable_sort_desc_meets_contract)
  have ids: "location_ids location_df ''EWR'' = [1]"
    by (simp add: location_ids_def location_df_def location_mapping_def)
  from no_matching_zone_renders [OF h1 h2 h3 h4, of "[]"] h2 h3 ids show ?thesis
    by simp
qed

section \<open>The shapefile cache\<close>

text \<open>
  Claim C3. When the archive and the extracted shapefile are both in the data directory, a
  call of \<^verbatim>\<open>load_shape_data_file\<close> makes no request and leaves the directory as it was, and
  so does any number of calls in a row.
\<close>

theorem cached_call_is_noop:
  assumes "zip_exists (data_dir w)" and "shapefile_exists (data_dir w)"
  shows "requests (snd (load_shape_data_file env url w)) = requests w
       \<and> data_dir (snd (load_shape_data_file env url w)) = data_dir w
       \<and> ((\<lambda>v. snd (load_shape_data_file env url v)) ^^ n) w = w"
proof -
  have one: "snd (load_shape_data_file env url w) = w"
    using assms by (simp add: cached_load)
  have "((\<lambda>v. snd (load_shape_data_file env url v)) ^^ n) w = w"
    by (induction n) (simp_all add: one)
  with one show ?thesis by simp
qed

theorem cached_call_is_noop_witness:
  "zip_exists (data_dir cached_world) \<and> shapefile_exists (data_dir cached_world)
   \<and> requests (snd (load_shape_data_file (example_env NoConnection (Inr [])) default_url
                      cached_world)) = []
   \<and> data_dir (snd (load_shape_data_file (example_env NoConnection (Inr [])) default_url
                      cached_world)) = data_dir cached_world
   \<and> ((\<lambda>v. snd (load_shape_data_file (example_env NoConnection (Inr [])) default_url v)) ^^ 3)
       cached_world = cached_world"
proof -
  have r: "requests cached_world = []" by (simp add: cached_world_def)
  from cached_call_is_noop [OF cached_world_ready, of "example_env NoConnection (Inr [])" default_url 3]
    cached_world_ready r
  show ?thesis by simp
qed

text \<open>
  Claim C5, as the code has it. When the archive is absent, the call makes one GET request for
  the URL with a timeout of 10 seconds, and it fails with the download error when the request
  times out or the response has a status that \<^verbatim>\<open>raise_for_status\<close> rejects (400 to 599). When
  the shapefile is absent and the archive, the one in the directory or the one just
  downloaded, is rejected with \<^verbatim>\<open>BadZipFile\<close>, the call fails with the extraction error.
\<close>

theorem download_and_extraction_errors:
  "(\<not> zip_exists (data_dir w) \<longrightarrow>
      requests (snd (load_shape_data_file env url w)) = requests w @ [(url, 10)])
   \<and> (\<not> zip_exists (data_dir w) \<and>
        (http_get env url = NoAnswerInTime \<or>
         (\<exists>status_code content. http_get env url = Response status_code content
                                  \<and> 400 \<le> status_code \<and> status_code < 600)) \<longrightarrow>
      (\<exists>ex. fst (load_shape_data_file env url w) = Inl (Failed_to_download ex)))
   \<and> (\<not> shapefile_exists (data_dir w) \<and> unzip env archive = BadZipFile written \<and>
        ((\<exists>x. data_dir w = Directory (Some archive) x) \<or>
         (\<not> zip_exists (data_dir w) \<and> raise_for_status (http_get env url) = Inr archive)) \<longrightarrow>
      fst (load_shape_data_file env url w) = Inl Failed_to_extract)"
proof (intro conjI impI)
  assume "\<not> zip_exists (data_dir w)"
  then show "requests (snd (load_shape_data_file env url w)) = requests w @ [(url, 10)]"
    by (rule load_requests)
next
  assume a: "\<not> zip_exists (data_dir w) \<and>
        (http_get env url = NoAnswerInTime \<or>
         (\<exists>status_code content. http_get env url = Response status_code content
                                  \<and> 400 \<le> status_code \<and> status_code < 600))"
  then have "\<exists>ex. raise_for_status (http_get env url) = Inl ex"
    by (auto simp: raise_for_status_def)
  with a show "\<exists>ex. fst (load_shape_data_file env url w) = Inl (Failed_to_download ex)"
    using load_download_fails by blast
next
  assume a: "\<not> shapefile_exists (data_dir w) \<and> unzip env archive = BadZipFile written \<and>
        ((\<exists>x. data_dir w = Directory (Some archive) x) \<or>
         (\<not> zip_exists (data_dir w) \<and> raise_for_status (http_get env url) = Inr archive))"
  then have u: "unzip env archive = BadZipFile written" and ns: "\<not> shapefile_exists (data_dir w)"
    and c: "(\<exists>x. data_dir w = Directory (Some archive) x) \<or>
            (\<not> zip_exists (data_dir w) \<and> raise_for_status (http_get env url) = Inr archive)"
    by simp_all
  from c show "fst (load_shape_data_file env url w) = Inl Failed_to_extract"
  proof
    assume "\<exists>x. data_dir w = Directory (Some archive) x"
    with ns u show ?thesis using load_extract_fails_cached by blast
  next
    assume "\<not> zip_exists (data_dir w) \<and> raise_for_status (http_get env url) = Inr archive"
    with ns u show ?thesis using load_extract_fails_downloaded by blast
  qed
qed

text \<open>
  An absent directory and a server that does not answer in time: one request with the
  timeout 10 and the download error. An absent directory and a server that answers 503: the
  download error. A directory whose archive is not a zip file: the extraction error. An
  absent directory and a server that answers 200 with such a body: the extraction error.
\<close>

theorem download_and_extraction_errors_witness:
  "\<not> zip_exists (data_dir empty_world)
   \<and> requests (snd (load_shape_data_file (example_env NoAnswerInTime (Inr [])) default_url
                      empty_world)) = [(default_url, 10)]
   \<and> (\<exists>ex. fst (load_shape_data_file (example_env NoAnswerInTime (Inr [])) default_url
                   empty_world) = Inl (Failed_to_download ex))
   \<and> (\<exists>ex. fst (load_shape_data_file (example_env (Response 503 []) (Inr [])) default_url
                   empty_world) = Inl (Failed_to_download ex))
   \<and> \<not> shapefile_exists (data_dir corrupt_world)
   \<and> fst (load_shape_data_file (example_env NoConnection (Inr [])) default_url corrupt_world) =
       Inl Failed_to_extract
   \<and> fst (load_shape_data_file (example_env (Response 200 [1, 2, 3]) (Inr [])) default_url
            empty_world) = Inl Failed_to_extract"
proof -
  have z: "\<not> zip_exists (data_dir empty_world)" "\<not> shapefile_exists (data_dir empty_world)"
    by (simp_all add: empty_world_def zip_exists_def shapefile_exists_def)
  have s: "\<not> shapefile_exists (data_dir corrupt_world)"
    "\<exists>x. data_dir corrupt_world = Directory (Some [1, 2, 3]) x"
    by (simp_all add: corrupt_world_def shapefile_exists_def)
  have u: "unzip (example_env a f) [1, 2, 3] = BadZipFile None" for a f
    by (simp add: example_env_def)
  have g: "http_get (example_env a f) default_url = a" for a f
    by (simp add: example_env_def)
  have ok: "raise_for_status (Response 200 [1, 2, 3]) = Inr [1, 2, 3]"
    by (simp add: raise_for_status_def)
  have r: "requests empty_world = []" by (simp add: empty_world_def)
  from download_and_extraction_errors
         [of empty_world "example_env NoAnswerInTime (Inr [])" default_url "[]" None]
       download_and_extraction_errors
         [of empty_world "example_env (Response 503 []) (Inr [])" default_url "[]" None]
       download_and_extraction_errors
         [of corrupt_world "example_env NoConnection (Inr [])" default_url "[1, 2, 3]" None]
       download_and_extraction_errors
         [of empty_world "example_env (Response 200 [1, 2, 3]) (Inr [])" default_url "[1, 2, 3]" None]
       z s u g ok r
  show ?thesis by simp
qed

text \<open>
  Claim C5 as stated fails in two places. A response with the status 304, which is not a
  success status, is not rejected: its body is written as the archive, and what the call
  then raises is the extraction error, not the download error. An archive with damaged
  compressed data makes extraction raise \<^verbatim>\<open>zlib.error\<close>, which the function does not turn
  into the extraction error.
\<close>

theorem download_and_extraction_errors_counterexample:
  "\<not> zip_exists (data_dir empty_world)
   \<and> http_get (example_env (Response 304 []) (Inr [])) default_url = Response 304 []
   \<and> fst (load_shape_data_file (example_env (Response 304 []) (Inr [])) default_url empty_world) =
       Inl Failed_to_extract
   \<and> zip_file (data_dir (snd (load_shape_data_file (example_env (Response 304 []) (Inr []))
                                 default_url empty_world))) = Some []
   \<and> \<not> shapefile_exists (data_dir damaged_world)
   \<and> unzip (example_env NoConnection (Inr [])) [80, 75, 120] =
       OtherFailure ''zlib.error'' (Some [(''taxi_zones.shp'', [0, 0])])
   \<and> fst (load_shape_data_file (example_env NoConnection (Inr [])) default_url damaged_world) =
       Inl (UnzipError ''zlib.error'')"
  by (simp add: load_shape_data_file_def download_step_def after_download_def extract_step_def
        mkdir_def zip_exists_def shapefile_exists_def raise_for_status_def left_on_disk_def
        example_env_def empty_world_def damaged_world_def)

section \<open>Failures while loading\<close>

text \<open>
  Claim C6. When loading the shapefile, fetching the features or fetching the predictions
  raises, the run ends with the exception of the first step that raised, and nothing of the
  later stages (borough filter, table, map, statistics, charts) has been shown.
\<close>

theorem loading_failure_aborts:
  assumes "isl (fst (load_shape_data_file env default_url w))
           \<or> isl (load_batch_of_features_from_store env)
           \<or> isl (fetch_next_hour_predictions env)"
  shows "\<exists>e. loading_failure env w = Some e
            \<and> raised (run_dashboard env w) = Some e
            \<and> (\<forall>u\<in>set (shown (run_dashboard env w)). \<not> is_stage_output u)"
proof (cases "load_shape_data_file env default_url w")
  case (Pair r w1)
  show ?thesis
  proof (cases r)
    case (Inl e)
    with Pair show ?thesis by (simp add: loading_failure_def run_dashboard_def)
  next
    case geo: (Inr geo_df)
    show ?thesis
    proof (cases "load_batch_of_features_from_store env")
      case (Inl e)
      with Pair geo show ?thesis by (simp add: loading_failure_def run_dashboard_def)
    next
      case feats: (Inr features)
      show ?thesis
      proof (cases "fetch_next_hour_predictions env")
        case (Inl e)
        with Pair geo feats show ?thesis by (simp add: loading_failure_def run_dashboard_def)
      next
        case (Inr predictions)
        with Pair geo feats assms show ?thesis by simp
      qed
    qed
  qed
qed

text \<open>
  The feature store is unreachable while the shapefile is cached: the run ends with that
  error after the first progress step.
\<close>

theorem loading_failure_aborts_witness:
  "isl (load_batch_of_features_from_store
          (example_env NoConnection (Inl (UpstreamError ''feature store unreachable''))))
   \<and> raised (run_dashboard (example_env NoConnection (Inl (UpstreamError ''feature store unreachable'')))
                cached_world) = Some (UpstreamError ''feature store unreachable'')
   \<and> shown (run_dashboard (example_env NoConnection (Inl (UpstreamError ''feature store unreachable'')))
               cached_world) =
       [Title ''New York Yellow Taxi Cab Demand Next Hour'', Header ''2025-03-01 09:00 AM EST'',
        Progress 0, SidebarWrite ''Shape file was downloaded'', Progress 1]"
proof -
  let ?env = "example_env NoConnection (Inl (UpstreamError ''feature store unreachable''))"
  have f: "load_batch_of_features_from_store ?env = Inl (UpstreamError ''feature store unreachable'')"
    and t: "current_time_text ?env = ''2025-03-01 09:00 AM EST''"
    by (simp_all add: example_env_def)
  have h: "isl (fst (load_shape_data_file ?env default_url cached_world))
           \<or> isl (load_batch_of_features_from_store ?env)
           \<or> isl (fetch_next_hour_predictions ?env)"
    by (simp add: f)
  have l: "load_shape_data_file ?env default_url cached_world = (Inr example_zones, cached_world)"
    by (simp add: cached_load cached_world_ready cached_world_read)
  from loading_failure_aborts [OF h] f t l show ?thesis
    by (simp add: run_dashboard_def loading_failure_def)
qed

end
